theory Spec2Isabelle
  imports Main
begin

section \<open>Go values used by the authentication core\<close>

subsection \<open>Errors\<close>

text \<open>
  A Go error met by package \<open>auth\<close> is either a package-level error value, identified by
  the package and the variable that holds it (\<open>errors.New\<close> gives every variable an
  identity of its own, whatever its message), or the result of
  \<open>fmt.Errorf("%s: %w", op, err)\<close>, which keeps \<open>err\<close> reachable through \<open>Unwrap\<close>.
  \<open>errors.Is\<close> walks that chain and compares each link with the target. The code only
  ever passes a package-level variable as the target, so the target has type \<open>errvar\<close>.
  The message of an error plays no part in \<open>errors.Is\<close> and is left out. Errors that
  wrap several errors at once, or that bring an \<open>Is\<close> method of their own, are outside
  this model: the core builds none.
\<close>

datatype errvar = ErrVar string string

datatype err = Sentinel errvar | Errorf string err

fun errors_Is :: "err \<Rightarrow> errvar \<Rightarrow> bool" where
  "errors_Is (Sentinel v) target = (v = target)"
| "errors_Is (Errorf opn e) target = errors_Is e target"

text \<open>The four error variables declared by package \<open>auth\<close>.\<close>

definition ErrInvalidCredentials :: errvar where
  "ErrInvalidCredentials = ErrVar ''auth'' ''ErrInvalidCredentials''"

definition ErrInvalidAppID :: errvar where
  "ErrInvalidAppID = ErrVar ''auth'' ''ErrInvalidAppID''"

definition ErrUserExists :: errvar where
  "ErrUserExists = ErrVar ''auth'' ''ErrUserExists''"

definition ErrUserNotFound :: errvar where
  "ErrUserNotFound = ErrVar ''auth'' ''ErrUserNotFound''"

text \<open>
  Modelled from the spec: the declarations of package \<open>storage\<close> are not among the
  sources; \<open>auth\<close> names two of its error variables, the "not found" and the
  "already exists" outcomes of the storage contracts.
\<close>

definition storage_ErrUserNotFound :: errvar where
  "storage_ErrUserNotFound = ErrVar ''storage'' ''ErrUserNotFound''"

definition storage_ErrUserExists :: errvar where
  "storage_ErrUserExists = ErrVar ''storage'' ''ErrUserExists''"

subsection \<open>Domain records\<close>

text \<open>
  Modelled from the spec: the declarations of package \<open>models\<close> are not among the
  sources. The fields are the ones the code reads: a user has a numeric ID, an email and a
  password hash; an app has a numeric ID and a secret. A Go \<open>string\<close> and a \<open>[]byte\<close>
  are both byte sequences, so both are \<open>string\<close> here and the conversion
  \<open>[]byte(s)\<close> is the identity. The IDs are \<open>int64\<close> and \<open>int\<close> in Go; the core
  only passes them on, without arithmetic, so they are \<open>int\<close> here.
\<close>

record User =
  ID :: int
  Email :: string
  PassHash :: string

record App =
  ID :: int
  Secret :: string

subsection \<open>Time\<close>

text \<open>
  An instant is its number of nanoseconds since the Unix epoch, a duration a number of
  nanoseconds. \<open>Unix\<close> gives whole seconds since the epoch, rounding towards minus
  infinity, as Go's split into seconds and a nanosecond part in \<open>[0, 999999999]\<close> does.
  Go keeps the seconds of an instant in 64 bits, counted from year 1, so adding a duration
  (64 bits of nanoseconds, at most about 292 years) to a reading of the wall clock never
  overflows, and the plain sum is what \<open>Add\<close> returns.
\<close>

type_synonym Time = int
type_synonym Duration = int

definition Time_Add :: "Time \<Rightarrow> Duration \<Rightarrow> Time" where
  "Time_Add t d = t + d"

definition Time_Unix :: "Time \<Rightarrow> int" where
  "Time_Unix t = t div 1000000000"

subsection \<open>Tokens of the JWT library\<close>

datatype SigningMethod = SigningMethodHS256 | SigningMethodHS384 | SigningMethodHS512

fun Alg :: "SigningMethod \<Rightarrow> string" where
  "Alg SigningMethodHS256 = ''HS256''"
| "Alg SigningMethodHS384 = ''HS384''"
| "Alg SigningMethodHS512 = ''HS512''"

text \<open>The values the code stores in a \<open>MapClaims\<close>: integers and strings.\<close>

datatype claim = IntClaim int | StringClaim string

record Token =
  Method :: SigningMethod
  Header :: "string \<rightharpoonup> string"
  Claims :: "string \<rightharpoonup> claim"

definition jwt_New :: "SigningMethod \<Rightarrow> Token" where
  "jwt_New m = \<lparr>Method = m, Header = [''typ'' \<mapsto> ''JWT'', ''alg'' \<mapsto> Alg m], Claims = Map.empty\<rparr>"

section \<open>The outside world\<close>

text \<open>
  Everything the core calls lives outside it: the three storage capabilities held by the
  \<open>Auth\<close> struct, and the libraries (bcrypt, the clock, the JWT signer). Each is a
  parameter. A Go function returning \<open>(value, error)\<close> returns a pair whose second
  component is \<open>None\<close> for \<open>nil\<close>; a capability may well return a non-zero value
  next to an error. The state \<open>'s\<close> of the outside world (database, random source, clock)
  is threaded through every call that can read or change it. The context argument and the
  logger are left out: the context is only handed on to the capabilities, and log lines are
  no part of any result.
\<close>

record 's Auth =
  usrSaver_SaveUser :: "string \<Rightarrow> string \<Rightarrow> 's \<Rightarrow> (int \<times> err option) \<times> 's"
  usrProvider_User :: "string \<Rightarrow> 's \<Rightarrow> (User \<times> err option) \<times> 's"
  usrProvider_IsAdmin :: "int \<Rightarrow> 's \<Rightarrow> (bool \<times> err option) \<times> 's"
  appProvider_App :: "int \<Rightarrow> 's \<Rightarrow> (App \<times> err option) \<times> 's"
  tokenTTL :: Duration

record 's extern =
  bcrypt_CompareHashAndPassword :: "string \<Rightarrow> string \<Rightarrow> err option"
  bcrypt_GenerateFromPassword :: "string \<Rightarrow> int \<Rightarrow> 's \<Rightarrow> (string \<times> err option) \<times> 's"
  time_Now :: "'s \<Rightarrow> Time"
  jwt_SignedString :: "Token \<Rightarrow> string \<Rightarrow> string \<times> err option"

definition bcrypt_DefaultCost :: int where
  "bcrypt_DefaultCost = 10"

text \<open>
  Every call that leaves the core is recorded, with its arguments and its answer, in the
  order in which it is made.
\<close>

datatype call =
    Call_User string "User \<times> err option"
  | Call_CompareHashAndPassword string string "err option"
  | Call_App int "App \<times> err option"
  | Call_Now Time
  | Call_SignedString Token string "string \<times> err option"
  | Call_GenerateFromPassword string int "string \<times> err option"
  | Call_SaveUser string string "int \<times> err option"
  | Call_IsAdmin int "bool \<times> err option"

record 's world =
  ext :: 's
  calls :: "call list"

definition invoke :: "('r \<Rightarrow> call) \<Rightarrow> ('s \<Rightarrow> 'r \<times> 's) \<Rightarrow> 's world \<Rightarrow> 'r \<times> 's world" where
  "invoke ev f w = (case f (ext w) of (r, s') \<Rightarrow> (r, \<lparr>ext = s', calls = calls w @ [ev r]\<rparr>))"

definition reading :: "('s \<Rightarrow> 'r) \<Rightarrow> 's \<Rightarrow> 'r \<times> 's" where
  "reading f s = (f s, s)"

section \<open>Package jwt\<close>

text \<open>
  \<open>claims\<close> is the map inside the token (Go maps are references), so the four
  assignments change the token that is signed.
\<close>

definition NewToken ::
  "'s extern \<Rightarrow> User \<Rightarrow> App \<Rightarrow> Duration \<Rightarrow> 's world \<Rightarrow> (string \<times> err option) \<times> 's world" where
  "NewToken x user app duration w0 =
    (let token = jwt_New SigningMethodHS256;
         claims = Claims token;
         claims = claims(''uid'' \<mapsto> IntClaim (User.ID user));
         claims = claims(''app_id'' \<mapsto> IntClaim (App.ID app))
     in case invoke Call_Now (reading (time_Now x)) w0 of (now, w1) \<Rightarrow>
       (let claims = claims(''exp'' \<mapsto> IntClaim (Time_Unix (Time_Add now duration)));
            claims = claims(''email'' \<mapsto> StringClaim (User.Email user));
            token = token\<lparr>Claims := claims\<rparr>
        in case invoke (Call_SignedString token (App.Secret app))
                  (reading (\<lambda>_. jwt_SignedString x token (App.Secret app))) w1 of
             ((tokenString, err), w2) \<Rightarrow>
               (case err of
                  Some e \<Rightarrow> (('''', Some e), w2)
                | None \<Rightarrow> ((tokenString, None), w2))))"

section \<open>Package auth\<close>

definition Login ::
  "'s extern \<Rightarrow> 's Auth \<Rightarrow> string \<Rightarrow> string \<Rightarrow> int \<Rightarrow> 's world \<Rightarrow> (string \<times> err option) \<times> 's world" where
  "Login x a email password appID w0 =
    (let opn = ''auth.Login''
     in case invoke (Call_User email) (usrProvider_User a email) w0 of
       ((user, err), w1) \<Rightarrow>
         (case err of
            Some e \<Rightarrow>
              if errors_Is e storage_ErrUserNotFound
              then (('''', Some (Errorf opn (Sentinel ErrInvalidCredentials))), w1)
              else (('''', Some (Errorf opn e)), w1)
          | None \<Rightarrow>
              (case invoke (Call_CompareHashAndPassword (User.PassHash user) password)
                      (reading (\<lambda>_. bcrypt_CompareHashAndPassword x (User.PassHash user) password)) w1 of
                 (Some e, w2) \<Rightarrow> (('''', Some (Errorf opn (Sentinel ErrInvalidCredentials))), w2)
               | (None, w2) \<Rightarrow>
                   (case invoke (Call_App appID) (appProvider_App a appID) w2 of
                      ((app, err), w3) \<Rightarrow>
                        (case err of
                           Some e \<Rightarrow> (('''', Some (Errorf opn e)), w3)
                         | None \<Rightarrow>
                             (case NewToken x user app (tokenTTL a) w3 of
                                ((token, err), w4) \<Rightarrow>
                                  (case err of
                                     Some e \<Rightarrow> (('''', Some (Errorf opn e)), w4)
                                   | None \<Rightarrow> ((token, None), w4))))))))"

definition RegisterNewUser ::
  "'s extern \<Rightarrow> 's Auth \<Rightarrow> string \<Rightarrow> string \<Rightarrow> 's world \<Rightarrow> (int \<times> err option) \<times> 's world" where
  "RegisterNewUser x a email password w0 =
    (let opn = ''auth.RegisterNewUser''
     in case invoke (Call_GenerateFromPassword password bcrypt_DefaultCost)
               (bcrypt_GenerateFromPassword x password bcrypt_DefaultCost) w0 of
       ((passHash, err), w1) \<Rightarrow>
         (case err of
            Some e \<Rightarrow> ((0, Some (Errorf opn e)), w1)
          | None \<Rightarrow>
              (case invoke (Call_SaveUser email passHash) (usrSaver_SaveUser a email passHash) w1 of
                 ((uid, err), w2) \<Rightarrow>
                   (case err of
                      Some e \<Rightarrow>
                        if errors_Is e storage_ErrUserExists
                        then ((0, Some (Errorf opn (Sentinel ErrUserExists))), w2)
                        else ((0, Some (Errorf opn e)), w2)
                    | None \<Rightarrow> ((uid, None), w2)))))"

definition IsAdmin ::
  "'s Auth \<Rightarrow> int \<Rightarrow> 's world \<Rightarrow> (bool \<times> err option) \<times> 's world" where
  "IsAdmin a userID w0 =
    (let opn = ''auth.IsAdmin''
     in case invoke (Call_IsAdmin userID) (usrProvider_IsAdmin a userID) w0 of
       ((isAdmin, err), w1) \<Rightarrow>
         (case err of
            Some e \<Rightarrow>
              if errors_Is e storage_ErrUserNotFound
              then ((False, Some (Errorf opn (Sentinel ErrInvalidAppID))), w1)
              else ((False, Some (Errorf opn e)), w1)
          | None \<Rightarrow> ((isAdmin, None), w1)))"

section \<open>What a caller observes\<close>

text \<open>
  The caller-facing vocabulary has four kinds. A caller tells them apart with
  \<open>errors.Is\<close> against the variables that \<open>auth\<close> exports; an error that is none of
  the three named ones is the unclassified internal kind.
\<close>

datatype kind = InvalidCredentials | InvalidAppID | UserExists | Internal

definition kind_of :: "err \<Rightarrow> kind" where
  "kind_of e =
    (if errors_Is e ErrInvalidCredentials then InvalidCredentials
     else if errors_Is e ErrInvalidAppID then InvalidAppID
     else if errors_Is e ErrUserExists then UserExists
     else Internal)"

section \<open>The token that is signed\<close>

text \<open>
  The token that \<open>NewToken\<close> hands to the signer when the clock reads \<open>now\<close>: the fresh
  HS256 token of \<open>jwt.New\<close> with the four assignments to its claims applied.
\<close>

definition issued :: "User \<Rightarrow> App \<Rightarrow> Duration \<Rightarrow> Time \<Rightarrow> Token" where
  "issued u ap d now =
     (jwt_New SigningMethodHS256)\<lparr>Claims :=
        [''uid'' \<mapsto> IntClaim (User.ID u), ''app_id'' \<mapsto> IntClaim (App.ID ap),
         ''exp'' \<mapsto> IntClaim (Time_Unix (Time_Add now d)), ''email'' \<mapsto> StringClaim (User.Email u)]\<rparr>"

section \<open>An in-memory stand-in for the outside world\<close>

text \<open>
  A small storage and library double, used only to run the core on concrete inputs: a list
  of users, a list of administrators, a list of apps, a clock, and a switch that makes
  every storage call time out.
\<close>

record mem =
  mem_users :: "User list"
  mem_admins :: "int list"
  mem_apps :: "App list"
  mem_clock :: Time
  mem_down :: bool

definition context_DeadlineExceeded :: errvar where
  "context_DeadlineExceeded = ErrVar ''context'' ''DeadlineExceeded''"

definition mem_User :: "string \<Rightarrow> mem \<Rightarrow> (User \<times> err option) \<times> mem" where
  "mem_User email s =
    (if mem_down s
     then ((\<lparr>User.ID = 0, Email = '''', PassHash = ''''\<rparr>,
            Some (Errorf ''storage.mem.User'' (Sentinel context_DeadlineExceeded))), s)
     else case find (\<lambda>u. User.Email u = email) (mem_users s) of
       Some u \<Rightarrow> ((u, None), s)
     | None \<Rightarrow> ((\<lparr>User.ID = 0, Email = '''', PassHash = ''''\<rparr>,
                  Some (Errorf ''storage.mem.User'' (Sentinel storage_ErrUserNotFound))), s))"

definition mem_IsAdmin :: "int \<Rightarrow> mem \<Rightarrow> (bool \<times> err option) \<times> mem" where
  "mem_IsAdmin uid s =
    (if mem_down s
     then ((True, Some (Errorf ''storage.mem.IsAdmin'' (Sentinel context_DeadlineExceeded))), s)
     else if uid \<in> set (map User.ID (mem_users s))
     then ((uid \<in> set (mem_admins s), None), s)
     else ((True, Some (Errorf ''storage.mem.IsAdmin'' (Sentinel storage_ErrUserNotFound))), s))"

definition mem_App :: "int \<Rightarrow> mem \<Rightarrow> (App \<times> err option) \<times> mem" where
  "mem_App appID s =
    (if mem_down s
     then ((\<lparr>App.ID = 0, Secret = ''''\<rparr>,
            Some (Errorf ''storage.mem.App'' (Sentinel context_DeadlineExceeded))), s)
     else case find (\<lambda>p. App.ID p = appID) (mem_apps s) of
       Some p \<Rightarrow> ((p, None), s)
     | None \<Rightarrow> ((\<lparr>App.ID = 0, Secret = ''''\<rparr>,
                  Some (Errorf ''storage.mem.App'' (Sentinel (ErrVar ''storage'' ''ErrAppNotFound'')))), s))"

definition mem_SaveUser :: "string \<Rightarrow> string \<Rightarrow> mem \<Rightarrow> (int \<times> err option) \<times> mem" where
  "mem_SaveUser email passHash s =
    (if mem_down s
     then ((7, Some (Errorf ''storage.mem.SaveUser'' (Sentinel context_DeadlineExceeded))), s)
     else if email \<in> set (map User.Email (mem_users s))
     then ((7, Some (Errorf ''storage.mem.SaveUser'' (Sentinel storage_ErrUserExists))), s)
     else ((int (length (mem_users s)) + 1, None),
           s\<lparr>mem_users := mem_users s @
               [\<lparr>User.ID = int (length (mem_users s)) + 1, Email = email, PassHash = passHash\<rparr>]\<rparr>))"

definition mem_Auth :: "mem Auth" where
  "mem_Auth = \<lparr>usrSaver_SaveUser = mem_SaveUser, usrProvider_User = mem_User,
               usrProvider_IsAdmin = mem_IsAdmin, appProvider_App = mem_App,
               tokenTTL = 3600000000000\<rparr>"

text \<open>
  The library doubles: a "hash" that prefixes the password and refuses more than 72 bytes,
  as bcrypt does, and a "signature" that fails on an empty key and otherwise depends on
  the algorithm, on whether the \<open>exp\<close> claim ends in 0, and on the key. Both return a
  non-zero value next to their error, which Go allows.
\<close>

definition fake_GenerateFromPassword :: "string \<Rightarrow> int \<Rightarrow> mem \<Rightarrow> (string \<times> err option) \<times> mem" where
  "fake_GenerateFromPassword password cost s =
    (if length password > 72
     then ((''junk'', Some (Sentinel (ErrVar ''bcrypt'' ''ErrPasswordTooLong''))), s)
     else ((''$2a$'' @ password, None), s))"

definition fake_CompareHashAndPassword :: "string \<Rightarrow> string \<Rightarrow> err option" where
  "fake_CompareHashAndPassword hash password =
    (if hash = ''$2a$'' @ password then None
     else Some (Sentinel (ErrVar ''bcrypt'' ''ErrMismatchedHashAndPassword'')))"

definition exp_mark :: "Token \<Rightarrow> string" where
  "exp_mark token =
    (case Claims token ''exp'' of
       Some (IntClaim e) \<Rightarrow> if e mod 10 = 0 then [] else ''+''
     | _ \<Rightarrow> [])"

definition fake_SignedString :: "Token \<Rightarrow> string \<Rightarrow> string \<times> err option" where
  "fake_SignedString token key =
    (if key = [] then (''junk'', Some (Sentinel (ErrVar ''jwt'' ''ErrInvalidKey'')))
     else (Alg (Method token) @ exp_mark token @ ''.'' @ rev key, None))"

definition mem_extern :: "mem extern" where
  "mem_extern = \<lparr>bcrypt_CompareHashAndPassword = fake_CompareHashAndPassword,
                 bcrypt_GenerateFromPassword = fake_GenerateFromPassword,
                 time_Now = mem_clock,
                 jwt_SignedString = fake_SignedString\<rparr>"

text \<open>
  Four worlds: one with no user yet; one where \<open>a@x.com\<close> is registered with password
  \<open>pw123\<close> (with an app 1 that has a secret and an app 2 that has an empty one); the
  same 42 seconds later; and the same with the storage timing out.
\<close>

definition mem_apps0 :: "App list" where
  "mem_apps0 = [\<lparr>App.ID = 1, Secret = ''s3cret''\<rparr>, \<lparr>App.ID = 2, Secret = ''''\<rparr>]"

definition world_empty :: "mem world" where
  "world_empty = \<lparr>ext = \<lparr>mem_users = [], mem_admins = [], mem_apps = mem_apps0,
                          mem_clock = 1700000000123456789, mem_down = False\<rparr>, calls = []\<rparr>"

definition user_a :: User where
  "user_a = \<lparr>User.ID = 1, Email = ''a@x.com'', PassHash = ''$2a$pw123''\<rparr>"

definition world_one :: "mem world" where
  "world_one = \<lparr>ext = \<lparr>mem_users = [user_a], mem_admins = [], mem_apps = mem_apps0,
                        mem_clock = 1700000000123456789, mem_down = False\<rparr>, calls = []\<rparr>"

definition world_later :: "mem world" where
  "world_later = \<lparr>ext = \<lparr>mem_users = [user_a], mem_admins = [], mem_apps = mem_apps0,
                          mem_clock = 1700000042000000000, mem_down = False\<rparr>, calls = []\<rparr>"

definition world_down :: "mem world" where
  "world_down = \<lparr>ext = \<lparr>mem_users = [user_a], mem_admins = [], mem_apps = mem_apps0,
                         mem_clock = 1700000000123456789, mem_down = True\<rparr>, calls = []\<rparr>"

text \<open>
  A second set of capabilities: the same user reader, but an app reader, an admin-status
  reader and a writer that relay to another instance of this core and hand its errors on,
  so that what they answer wraps the error variables of \<open>auth\<close> itself.
\<close>

definition relay_App :: "int \<Rightarrow> mem \<Rightarrow> (App \<times> err option) \<times> mem" where
  "relay_App appID s =
    ((\<lparr>App.ID = 0, Secret = ''''\<rparr>,
      Some (Errorf ''relay.App'' (Sentinel ErrInvalidCredentials))), s)"

definition relay_IsAdmin :: "int \<Rightarrow> mem \<Rightarrow> (bool \<times> err option) \<times> mem" where
  "relay_IsAdmin uid s =
    ((False, Some (Errorf ''relay.IsAdmin'' (Sentinel ErrInvalidCredentials))), s)"

definition relay_SaveUser :: "string \<Rightarrow> string \<Rightarrow> mem \<Rightarrow> (int \<times> err option) \<times> mem" where
  "relay_SaveUser email passHash s =
    ((0, Some (Errorf ''relay.SaveUser'' (Sentinel ErrUserExists))), s)"

definition relay_Auth :: "mem Auth" where
  "relay_Auth = \<lparr>usrSaver_SaveUser = relay_SaveUser, usrProvider_User = mem_User,
                 usrProvider_IsAdmin = relay_IsAdmin, appProvider_App = relay_App,
                 tokenTTL = 3600000000000\<rparr>"

section \<open>The paths through the three operations\<close>

lemmas errvars = ErrInvalidCredentials_def ErrInvalidAppID_def ErrUserExists_def ErrUserNotFound_def
  storage_ErrUserNotFound_def storage_ErrUserExists_def context_DeadlineExceeded_def

lemmas doubles = mem_User_def mem_IsAdmin_def mem_App_def mem_SaveUser_def mem_Auth_def
  fake_GenerateFromPassword_def fake_CompareHashAndPassword_def fake_SignedString_def mem_extern_def
  mem_apps0_def world_empty_def user_a_def world_one_def world_later_def world_down_def
  exp_mark_def relay_App_def relay_IsAdmin_def relay_SaveUser_def relay_Auth_def

lemma invoke_reading:
  "invoke ev (reading f) w = (f (ext w), \<lparr>ext = ext w, calls = calls w @ [ev (f (ext w))]\<rparr>)"
  by (simp add: invoke_def reading_def)

lemma kind_of_Errorf: "kind_of (Errorf opn e) = kind_of e"
  by (simp add: kind_of_def)

lemma kind_of_sentinels:
  "kind_of (Sentinel ErrInvalidCredentials) = InvalidCredentials"
  "kind_of (Sentinel ErrInvalidAppID) = InvalidAppID"
  "kind_of (Sentinel ErrUserExists) = UserExists"
  by (simp_all add: kind_of_def errvars)

lemma issued_fields:
  "Method (issued u ap d now) = SigningMethodHS256"
  "Header (issued u ap d now) ''alg'' = Some ''HS256''"
  "dom (Claims (issued u ap d now)) = {''uid'', ''app_id'', ''exp'', ''email''}"
  "Claims (issued u ap d now) ''uid'' = Some (IntClaim (User.ID u))"
  "Claims (issued u ap d now) ''app_id'' = Some (IntClaim (App.ID ap))"
  "Claims (issued u ap d now) ''exp'' = Some (IntClaim (Time_Unix (Time_Add now d)))"
  "Claims (issued u ap d now) ''email'' = Some (StringClaim (User.Email u))"
  by (auto simp add: issued_def jwt_New_def)

lemma Time_Unix_Add_mono:
  "n1 \<le> n2 \<Longrightarrow> Time_Unix (Time_Add n1 d) \<le> Time_Unix (Time_Add n2 d)"
  by (simp add: Time_Unix_def Time_Add_def zdiv_mono1)

lemma NewToken_eq:
  assumes "jwt_SignedString x (issued u ap d (time_Now x (ext w))) (App.Secret ap) = (ts, se)"
  shows "NewToken x u ap d w =
    ((if se = None then ts else '''', se),
     \<lparr>ext = ext w, calls = calls w @ [Call_Now (time_Now x (ext w)),
        Call_SignedString (issued u ap d (time_Now x (ext w))) (App.Secret ap) (ts, se)]\<rparr>)"
  using assms by (cases se) (simp_all add: NewToken_def invoke_reading issued_def jwt_New_def)

lemma Login_lookup_failed:
  assumes "usrProvider_User a email (ext w) = ((u, Some e), s1)"
  shows "Login x a email password appID w =
    (('''', Some (Errorf ''auth.Login''
        (if errors_Is e storage_ErrUserNotFound then Sentinel ErrInvalidCredentials else e))),
     \<lparr>ext = s1, calls = calls w @ [Call_User email (u, Some e)]\<rparr>)"
  using assms by (simp add: Login_def invoke_def)

lemma Login_password_failed:
  assumes "usrProvider_User a email (ext w) = ((u, None), s1)"
    and "bcrypt_CompareHashAndPassword x (User.PassHash u) password = Some ce"
  shows "Login x a email password appID w =
    (('''', Some (Errorf ''auth.Login'' (Sentinel ErrInvalidCredentials))),
     \<lparr>ext = s1, calls = calls w @ [Call_User email (u, None),
        Call_CompareHashAndPassword (User.PassHash u) password (Some ce)]\<rparr>)"
  using assms by (simp add: Login_def invoke_def reading_def)

lemma Login_app_failed:
  assumes "usrProvider_User a email (ext w) = ((u, None), s1)"
    and "bcrypt_CompareHashAndPassword x (User.PassHash u) password = None"
    and "appProvider_App a appID s1 = ((ap, Some e), s2)"
  shows "Login x a email password appID w =
    (('''', Some (Errorf ''auth.Login'' e)),
     \<lparr>ext = s2, calls = calls w @ [Call_User email (u, None),
        Call_CompareHashAndPassword (User.PassHash u) password None,
        Call_App appID (ap, Some e)]\<rparr>)"
  using assms by (simp add: Login_def invoke_def reading_def)

lemma Login_token_step:
  assumes "usrProvider_User a email (ext w) = ((u, None), s1)"
    and "bcrypt_CompareHashAndPassword x (User.PassHash u) password = None"
    and "appProvider_App a appID s1 = ((ap, None), s2)"
    and "jwt_SignedString x (issued u ap (tokenTTL a) (time_Now x s2)) (App.Secret ap) = (ts, se)"
  shows "Login x a email password appID w =
    ((if se = None then ts else '''', map_option (Errorf ''auth.Login'') se),
     \<lparr>ext = s2, calls = calls w @ [Call_User email (u, None),
        Call_CompareHashAndPassword (User.PassHash u) password None,
        Call_App appID (ap, None), Call_Now (time_Now x s2),
        Call_SignedString (issued u ap (tokenTTL a) (time_Now x s2)) (App.Secret ap) (ts, se)]\<rparr>)"
proof -
  let ?w3 = "\<lparr>ext = s2, calls = calls w @ [Call_User email (u, None),
        Call_CompareHashAndPassword (User.PassHash u) password None, Call_App appID (ap, None)]\<rparr>"
  have nt: "NewToken x u ap (tokenTTL a) ?w3 =
    ((if se = None then ts else '''', se),
     \<lparr>ext = s2, calls = calls ?w3 @ [Call_Now (time_Now x s2),
        Call_SignedString (issued u ap (tokenTTL a) (time_Now x s2)) (App.Secret ap) (ts, se)]\<rparr>)"
    using NewToken_eq [of x u ap "tokenTTL a" ?w3 ts se] assms(4) by simp
  show ?thesis
    using assms(1-3) nt
    by (cases se) (simp_all add: Login_def invoke_def reading_def)
qed

lemma Login_cases [case_names lookup password app token]:
  obtains
    (lookup) u e s1 where "usrProvider_User a email (ext w) = ((u, Some e), s1)"
  | (password) u s1 ce where "usrProvider_User a email (ext w) = ((u, None), s1)"
      and "bcrypt_CompareHashAndPassword x (User.PassHash u) password = Some ce"
  | (app) u s1 ap e s2 where "usrProvider_User a email (ext w) = ((u, None), s1)"
      and "bcrypt_CompareHashAndPassword x (User.PassHash u) password = None"
      and "appProvider_App a appID s1 = ((ap, Some e), s2)"
  | (token) u s1 ap s2 ts se where "usrProvider_User a email (ext w) = ((u, None), s1)"
      and "bcrypt_CompareHashAndPassword x (User.PassHash u) password = None"
      and "appProvider_App a appID s1 = ((ap, None), s2)"
      and "jwt_SignedString x (issued u ap (tokenTTL a) (time_Now x s2)) (App.Secret ap) = (ts, se)"
proof -
  obtain u ue s1 where l: "usrProvider_User a email (ext w) = ((u, ue), s1)"
    by (metis surj_pair)
  show thesis
  proof (cases ue)
    case (Some e)
    with l lookup show thesis by simp
  next
    case None
    note ue = None
    show thesis
    proof (cases "bcrypt_CompareHashAndPassword x (User.PassHash u) password")
      case (Some ce)
      with l ue password show thesis by simp
    next
      case None
      note c = None
      obtain ap ae s2 where p: "appProvider_App a appID s1 = ((ap, ae), s2)"
        by (metis surj_pair)
      obtain ts se where
        g: "jwt_SignedString x (issued u ap (tokenTTL a) (time_Now x s2)) (App.Secret ap) = (ts, se)"
        by (metis surj_pair)
      show thesis
      proof (cases ae)
        case (Some e)
        with l ue c p app show thesis by simp
      next
        case None
        with l ue c p g token show thesis by simp
      qed
    qed
  qed
qed

lemma Login_succeeded:
  assumes "Login x a email password appID w = ((tok, None), w')"
  obtains u s1 ap where
    "usrProvider_User a email (ext w) = ((u, None), s1)"
    "bcrypt_CompareHashAndPassword x (User.PassHash u) password = None"
    "appProvider_App a appID s1 = ((ap, None), ext w')"
    "jwt_SignedString x (issued u ap (tokenTTL a) (time_Now x (ext w'))) (App.Secret ap) = (tok, None)"
    "calls w' = calls w @ [Call_User email (u, None),
        Call_CompareHashAndPassword (User.PassHash u) password None,
        Call_App appID (ap, None), Call_Now (time_Now x (ext w')),
        Call_SignedString (issued u ap (tokenTTL a) (time_Now x (ext w'))) (App.Secret ap) (tok, None)]"
proof (cases rule: Login_cases [where a = a and email = email and w = w and x = x
      and password = password and appID = appID])
  case (lookup u e s1)
  with assms show ?thesis by (simp add: Login_lookup_failed)
next
  case (password u s1 ce)
  with assms show ?thesis by (simp add: Login_password_failed)
next
  case (app u s1 ap e s2)
  with assms show ?thesis by (simp add: Login_app_failed)
next
  case (token u s1 ap s2 ts se)
  from assms Login_token_step [OF token] have se: "se = None" and ts: "ts = tok"
    and w': "w' = \<lparr>ext = s2, calls = calls w @ [Call_User email (u, None),
        Call_CompareHashAndPassword (User.PassHash u) password None,
        Call_App appID (ap, None), Call_Now (time_Now x s2),
        Call_SignedString (issued u ap (tokenTTL a) (time_Now x s2)) (App.Secret ap) (ts, se)]\<rparr>"
    by (auto split: if_splits)
  from w' have e: "ext w' = s2" by simp
  show ?thesis
    using that [of u s1 ap] token se ts w' by (simp add: e)
qed

lemma RegisterNewUser_hash_failed:
  assumes "bcrypt_GenerateFromPassword x password bcrypt_DefaultCost (ext w) = ((h, Some e), s1)"
  shows "RegisterNewUser x a email password w =
    ((0, Some (Errorf ''auth.RegisterNewUser'' e)),
     \<lparr>ext = s1, calls = calls w @ [Call_GenerateFromPassword password bcrypt_DefaultCost (h, Some e)]\<rparr>)"
  using assms by (simp add: RegisterNewUser_def invoke_def)

lemma RegisterNewUser_save_failed:
  assumes "bcrypt_GenerateFromPassword x password bcrypt_DefaultCost (ext w) = ((h, None), s1)"
    and "usrSaver_SaveUser a email h s1 = ((uid, Some e), s2)"
  shows "RegisterNewUser x a email password w =
    ((0, Some (Errorf ''auth.RegisterNewUser''
        (if errors_Is e storage_ErrUserExists then Sentinel ErrUserExists else e))),
     \<lparr>ext = s2, calls = calls w @ [Call_GenerateFromPassword password bcrypt_DefaultCost (h, None),
        Call_SaveUser email h (uid, Some e)]\<rparr>)"
  using assms by (simp add: RegisterNewUser_def invoke_def)

lemma RegisterNewUser_saved:
  assumes "bcrypt_GenerateFromPassword x password bcrypt_DefaultCost (ext w) = ((h, None), s1)"
    and "usrSaver_SaveUser a email h s1 = ((uid, None), s2)"
  shows "RegisterNewUser x a email password w =
    ((uid, None),
     \<lparr>ext = s2, calls = calls w @ [Call_GenerateFromPassword password bcrypt_DefaultCost (h, None),
        Call_SaveUser email h (uid, None)]\<rparr>)"
  using assms by (simp add: RegisterNewUser_def invoke_def)

lemma IsAdmin_failed:
  assumes "usrProvider_IsAdmin a userID (ext w) = ((b, Some e), s1)"
  shows "IsAdmin a userID w =
    ((False, Some (Errorf ''auth.IsAdmin''
        (if errors_Is e storage_ErrUserNotFound then Sentinel ErrInvalidAppID else e))),
     \<lparr>ext = s1, calls = calls w @ [Call_IsAdmin userID (b, Some e)]\<rparr>)"
  using assms by (simp add: IsAdmin_def invoke_def)

lemma IsAdmin_answered:
  assumes "usrProvider_IsAdmin a userID (ext w) = ((b, None), s1)"
  shows "IsAdmin a userID w =
    ((b, None), \<lparr>ext = s1, calls = calls w @ [Call_IsAdmin userID (b, None)]\<rparr>)"
  using assms by (simp add: IsAdmin_def invoke_def)

section \<open>Two runs of the stand-in\<close>

lemmas run = Login_def NewToken_def jwt_New_def invoke_def reading_def Time_Unix_def Time_Add_def

lemma Login_world_one:
  "Login mem_extern mem_Auth ''a@x.com'' ''pw123'' 1 world_one =
     ((''HS256.terc3s'', None), snd (Login mem_extern mem_Auth ''a@x.com'' ''pw123'' 1 world_one))"
  by (simp add: run doubles errvars)

lemma Login_world_later:
  "Login mem_extern mem_Auth ''a@x.com'' ''pw123'' 1 world_later =
     ((''HS256+.terc3s'', None), snd (Login mem_extern mem_Auth ''a@x.com'' ''pw123'' 1 world_later))"
  by (simp add: run doubles errvars)

lemma world_one_final_ext:
  "ext (snd (Login mem_extern mem_Auth ''a@x.com'' ''pw123'' 1 world_one)) = ext world_one"
  by (simp add: run doubles errvars)

lemma world_later_final_ext:
  "ext (snd (Login mem_extern mem_Auth ''a@x.com'' ''pw123'' 1 world_later)) = ext world_later"
  by (simp add: run doubles errvars)

section \<open>Login: credential failures\<close>

text \<open>
  C1. When the user reader answers the lookup with an error in which \<open>errors.Is\<close> finds
  the storage "user not found" variable, \<open>Login\<close> returns the empty token and an error of
  kind \<open>InvalidCredentials\<close>; neither the storage "not found" variable nor the \<open>auth\<close>
  variable \<open>ErrUserNotFound\<close> can be found in it.
\<close>

theorem Login_unknown_email:
  assumes "usrProvider_User a email (ext w) = ((u, Some e), s1)"
    and "errors_Is e storage_ErrUserNotFound"
  shows "\<exists>r. fst (Login x a email password appID w) = ('''', Some r) \<and>
             kind_of r = InvalidCredentials \<and>
             \<not> errors_Is r storage_ErrUserNotFound \<and> \<not> errors_Is r ErrUserNotFound"
  using assms(2)
  by (simp add: Login_lookup_failed [OF assms(1)] kind_of_def errvars)

theorem Login_unknown_email_witness:
  "usrProvider_User mem_Auth ''b@x.com'' (ext world_one) =
     ((\<lparr>User.ID = 0, Email = '''', PassHash = ''''\<rparr>,
       Some (Errorf ''storage.mem.User'' (Sentinel storage_ErrUserNotFound))), ext world_one) \<and>
   errors_Is (Errorf ''storage.mem.User'' (Sentinel storage_ErrUserNotFound)) storage_ErrUserNotFound \<and>
   (\<exists>r. fst (Login mem_extern mem_Auth ''b@x.com'' ''pw123'' 1 world_one) = ('''', Some r) \<and>
        kind_of r = InvalidCredentials \<and>
        \<not> errors_Is r storage_ErrUserNotFound \<and> \<not> errors_Is r ErrUserNotFound)"
proof -
  have h1: "usrProvider_User mem_Auth ''b@x.com'' (ext world_one) =
     ((\<lparr>User.ID = 0, Email = '''', PassHash = ''''\<rparr>,
       Some (Errorf ''storage.mem.User'' (Sentinel storage_ErrUserNotFound))), ext world_one)"
    by (simp add: doubles)
  have h2: "errors_Is (Errorf ''storage.mem.User'' (Sentinel storage_ErrUserNotFound)) storage_ErrUserNotFound"
    by simp
  show ?thesis
    using h1 h2 Login_unknown_email [OF h1 h2, of mem_extern "''pw123''" 1] by blast
qed

text \<open>
  C2. When the user is found and the comparison of the password with the stored hash fails,
  \<open>Login\<close> returns an error of kind \<open>InvalidCredentials\<close>, and its result (token and error)
  is equal to the result of any \<open>Login\<close> whose user lookup reports "not found".
\<close>

theorem Login_wrong_password:
  assumes "usrProvider_User a email (ext w) = ((u, None), s1)"
    and "bcrypt_CompareHashAndPassword x (User.PassHash u) password = Some ce"
    and "usrProvider_User a' email' (ext w') = ((u', Some e'), s1')"
    and "errors_Is e' storage_ErrUserNotFound"
  shows "(\<exists>r. fst (Login x a email password appID w) = ('''', Some r) \<and>
              kind_of r = InvalidCredentials) \<and>
         fst (Login x a email password appID w) = fst (Login x' a' email' password' appID' w')"
  using assms(4)
  by (simp add: Login_password_failed [OF assms(1) assms(2)] Login_lookup_failed [OF assms(3)]
      kind_of_Errorf kind_of_sentinels)

theorem Login_wrong_password_witness:
  "usrProvider_User mem_Auth ''a@x.com'' (ext world_one) = ((user_a, None), ext world_one) \<and>
   bcrypt_CompareHashAndPassword mem_extern (User.PassHash user_a) ''wrong'' =
     Some (Sentinel (ErrVar ''bcrypt'' ''ErrMismatchedHashAndPassword'')) \<and>
   usrProvider_User mem_Auth ''b@x.com'' (ext world_one) =
     ((\<lparr>User.ID = 0, Email = '''', PassHash = ''''\<rparr>,
       Some (Errorf ''storage.mem.User'' (Sentinel storage_ErrUserNotFound))), ext world_one) \<and>
   fst (Login mem_extern mem_Auth ''a@x.com'' ''wrong'' 1 world_one) =
     ('''', Some (Errorf ''auth.Login'' (Sentinel ErrInvalidCredentials))) \<and>
   fst (Login mem_extern mem_Auth ''a@x.com'' ''wrong'' 1 world_one) =
     fst (Login mem_extern mem_Auth ''b@x.com'' ''pw123'' 1 world_one)"
proof -
  have h1: "usrProvider_User mem_Auth ''a@x.com'' (ext world_one) = ((user_a, None), ext world_one)"
    by (simp add: doubles)
  have h2: "bcrypt_CompareHashAndPassword mem_extern (User.PassHash user_a) ''wrong'' =
     Some (Sentinel (ErrVar ''bcrypt'' ''ErrMismatchedHashAndPassword''))"
    by (simp add: doubles)
  have h3: "usrProvider_User mem_Auth ''b@x.com'' (ext world_one) =
     ((\<lparr>User.ID = 0, Email = '''', PassHash = ''''\<rparr>,
       Some (Errorf ''storage.mem.User'' (Sentinel storage_ErrUserNotFound))), ext world_one)"
    by (simp add: doubles)
  have h4: "errors_Is (Errorf ''storage.mem.User'' (Sentinel storage_ErrUserNotFound)) storage_ErrUserNotFound"
    by simp
  have l: "fst (Login mem_extern mem_Auth ''a@x.com'' ''wrong'' 1 world_one) =
     ('''', Some (Errorf ''auth.Login'' (Sentinel ErrInvalidCredentials)))"
    by (simp add: Login_def invoke_def reading_def doubles errvars)
  show ?thesis
    using h1 h2 h3 l Login_wrong_password [OF h1 h2 h3 h4, of 1 mem_extern "''pw123''" 1] by simp
qed

section \<open>Login: the app lookup\<close>

text \<open>
  C3, as stated, fails on both counts. With the user found and the password verified, an
  unknown app ID makes \<open>Login\<close> return an error in which the caller's \<open>errors.Is\<close> finds
  the storage "app not found" error, so the error is not opaque; and an app reader whose
  error wraps \<open>ErrInvalidCredentials\<close> makes \<open>Login\<close> return an error of kind
  \<open>InvalidCredentials\<close>.
\<close>

theorem app_lookup_error_is_handed_on:
  "usrProvider_User mem_Auth ''a@x.com'' (ext world_one) = ((user_a, None), ext world_one) \<and>
   bcrypt_CompareHashAndPassword mem_extern (User.PassHash user_a) ''pw123'' = None \<and>
   appProvider_App mem_Auth 7 (ext world_one) =
     ((\<lparr>App.ID = 0, Secret = ''''\<rparr>,
       Some (Errorf ''storage.mem.App'' (Sentinel (ErrVar ''storage'' ''ErrAppNotFound'')))), ext world_one) \<and>
   fst (Login mem_extern mem_Auth ''a@x.com'' ''pw123'' 7 world_one) =
     ('''', Some (Errorf ''auth.Login''
        (Errorf ''storage.mem.App'' (Sentinel (ErrVar ''storage'' ''ErrAppNotFound''))))) \<and>
   errors_Is (Errorf ''auth.Login''
        (Errorf ''storage.mem.App'' (Sentinel (ErrVar ''storage'' ''ErrAppNotFound''))))
     (ErrVar ''storage'' ''ErrAppNotFound'') \<and>
   usrProvider_User relay_Auth ''a@x.com'' (ext world_one) = ((user_a, None), ext world_one) \<and>
   appProvider_App relay_Auth 1 (ext world_one) =
     ((\<lparr>App.ID = 0, Secret = ''''\<rparr>,
       Some (Errorf ''relay.App'' (Sentinel ErrInvalidCredentials))), ext world_one) \<and>
   fst (Login mem_extern relay_Auth ''a@x.com'' ''pw123'' 1 world_one) =
     ('''', Some (Errorf ''auth.Login'' (Errorf ''relay.App'' (Sentinel ErrInvalidCredentials)))) \<and>
   kind_of (Errorf ''auth.Login'' (Errorf ''relay.App'' (Sentinel ErrInvalidCredentials))) =
     InvalidCredentials"
  by (simp add: Login_def invoke_def reading_def kind_of_def doubles errvars)

text \<open>
  C3, amended. When the user is found and the password verifies but the app reader answers
  with an error, \<open>Login\<close> returns the empty token and that error wrapped under the operation
  name; it never replaces it by \<open>ErrInvalidCredentials\<close>. The caller's \<open>errors.Is\<close> finds in
  the returned error exactly what it finds in the reader's error, and the kind of the
  returned error is the kind of the reader's error: \<open>Internal\<close>, and so not
  \<open>InvalidCredentials\<close>, exactly when the reader's error is none of the three named
  variables of \<open>auth\<close>.
\<close>

theorem Login_app_lookup_failed:
  assumes "usrProvider_User a email (ext w) = ((u, None), s1)"
    and "bcrypt_CompareHashAndPassword x (User.PassHash u) password = None"
    and "appProvider_App a appID s1 = ((ap, Some e), s2)"
  shows "\<exists>r. fst (Login x a email password appID w) = ('''', Some r) \<and>
             r = Errorf ''auth.Login'' e \<and>
             (\<forall>t. errors_Is r t = errors_Is e t) \<and>
             kind_of r = kind_of e \<and>
             (kind_of r = Internal) = (kind_of e = Internal)"
  by (simp add: Login_app_failed [OF assms] kind_of_Errorf)

theorem Login_app_lookup_failed_witness:
  "usrProvider_User mem_Auth ''a@x.com'' (ext world_one) = ((user_a, None), ext world_one) \<and>
   bcrypt_CompareHashAndPassword mem_extern (User.PassHash user_a) ''pw123'' = None \<and>
   appProvider_App mem_Auth 3 (ext world_one) =
     ((\<lparr>App.ID = 0, Secret = ''''\<rparr>,
       Some (Errorf ''storage.mem.App'' (Sentinel (ErrVar ''storage'' ''ErrAppNotFound'')))), ext world_one) \<and>
   (\<exists>r. fst (Login mem_extern mem_Auth ''a@x.com'' ''pw123'' 3 world_one) = ('''', Some r) \<and>
        r = Errorf ''auth.Login''
          (Errorf ''storage.mem.App'' (Sentinel (ErrVar ''storage'' ''ErrAppNotFound''))) \<and>
        errors_Is r (ErrVar ''storage'' ''ErrAppNotFound'') \<and>
        kind_of r = Internal)"
proof -
  let ?e = "Errorf ''storage.mem.App'' (Sentinel (ErrVar ''storage'' ''ErrAppNotFound''))"
  have h1: "usrProvider_User mem_Auth ''a@x.com'' (ext world_one) = ((user_a, None), ext world_one)"
    by (simp add: doubles)
  have h2: "bcrypt_CompareHashAndPassword mem_extern (User.PassHash user_a) ''pw123'' = None"
    by (simp add: doubles)
  have h3: "appProvider_App mem_Auth 3 (ext world_one) =
     ((\<lparr>App.ID = 0, Secret = ''''\<rparr>, Some ?e), ext world_one)"
    by (simp add: doubles)
  have k: "kind_of ?e = Internal"
    by (simp add: kind_of_def errvars)
  from Login_app_lookup_failed [OF h1 h2 h3] obtain r where
    r: "fst (Login mem_extern mem_Auth ''a@x.com'' ''pw123'' 3 world_one) = ('''', Some r)"
    and re: "r = Errorf ''auth.Login'' ?e"
    and ri: "\<forall>t. errors_Is r t = errors_Is ?e t"
    and rk: "kind_of r = kind_of ?e"
    by (elim exE conjE)
  from ri have o: "errors_Is r (ErrVar ''storage'' ''ErrAppNotFound'')" by simp
  from rk k have ki: "kind_of r = Internal" by simp
  have "fst (Login mem_extern mem_Auth ''a@x.com'' ''pw123'' 3 world_one) = ('''', Some r) \<and>
        r = Errorf ''auth.Login'' ?e \<and>
        errors_Is r (ErrVar ''storage'' ''ErrAppNotFound'') \<and>
        kind_of r = Internal"
    using r re o ki by (intro conjI)
  then have "\<exists>r. fst (Login mem_extern mem_Auth ''a@x.com'' ''pw123'' 3 world_one) = ('''', Some r) \<and>
        r = Errorf ''auth.Login'' ?e \<and>
        errors_Is r (ErrVar ''storage'' ''ErrAppNotFound'') \<and>
        kind_of r = Internal"
    by (intro exI)
  with h1 h2 h3 show ?thesis by (intro conjI)
qed

section \<open>IsAdmin: the error mapping\<close>

text \<open>
  C4, as stated, fails in its second half. A timed-out admin-status reader makes \<open>IsAdmin\<close>
  return an error in which the caller's \<open>errors.Is\<close> finds the expired deadline, so the
  error is not opaque; and a reader whose error is not "user not found" but wraps
  \<open>ErrInvalidCredentials\<close> makes \<open>IsAdmin\<close> return an error of kind \<open>InvalidCredentials\<close>,
  not \<open>Internal\<close>.
\<close>

theorem admin_reader_error_is_handed_on:
  "usrProvider_IsAdmin mem_Auth 2 (ext world_down) =
     ((True, Some (Errorf ''storage.mem.IsAdmin'' (Sentinel context_DeadlineExceeded))), ext world_down) \<and>
   \<not> errors_Is (Errorf ''storage.mem.IsAdmin'' (Sentinel context_DeadlineExceeded))
     storage_ErrUserNotFound \<and>
   fst (IsAdmin mem_Auth 2 world_down) =
     (False, Some (Errorf ''auth.IsAdmin''
        (Errorf ''storage.mem.IsAdmin'' (Sentinel context_DeadlineExceeded)))) \<and>
   errors_Is (Errorf ''auth.IsAdmin''
        (Errorf ''storage.mem.IsAdmin'' (Sentinel context_DeadlineExceeded)))
     context_DeadlineExceeded \<and>
   usrProvider_IsAdmin relay_Auth 1 (ext world_one) =
     ((False, Some (Errorf ''relay.IsAdmin'' (Sentinel ErrInvalidCredentials))), ext world_one) \<and>
   \<not> errors_Is (Errorf ''relay.IsAdmin'' (Sentinel ErrInvalidCredentials)) storage_ErrUserNotFound \<and>
   fst (IsAdmin relay_Auth 1 world_one) =
     (False, Some (Errorf ''auth.IsAdmin'' (Errorf ''relay.IsAdmin'' (Sentinel ErrInvalidCredentials)))) \<and>
   kind_of (Errorf ''auth.IsAdmin'' (Errorf ''relay.IsAdmin'' (Sentinel ErrInvalidCredentials))) =
     InvalidCredentials"
  by (simp add: IsAdmin_def invoke_def kind_of_def doubles errvars)

text \<open>
  C4, amended. When the admin-status reader answers with an error in which \<open>errors.Is\<close>
  finds the storage "user not found" variable, \<open>IsAdmin\<close> returns \<open>false\<close> and
  \<open>ErrInvalidAppID\<close> wrapped under the operation name: an error of kind \<open>InvalidAppID\<close> in
  which no "user not found" variable can be found. For every other reader error it returns
  \<open>false\<close> and that error wrapped under the operation name: \<open>errors.Is\<close> finds in it
  exactly what it finds in the reader's error, and its kind is the kind of the reader's
  error, \<open>Internal\<close> exactly when the reader's error is none of the three named variables of
  \<open>auth\<close>.
\<close>

theorem IsAdmin_reader_failed:
  assumes "usrProvider_IsAdmin a userID (ext w) = ((b, Some e), s1)"
  shows "\<exists>r. fst (IsAdmin a userID w) = (False, Some r) \<and>
     (if errors_Is e storage_ErrUserNotFound
      then r = Errorf ''auth.IsAdmin'' (Sentinel ErrInvalidAppID) \<and>
           kind_of r = InvalidAppID \<and>
           \<not> errors_Is r storage_ErrUserNotFound \<and> \<not> errors_Is r ErrUserNotFound
      else r = Errorf ''auth.IsAdmin'' e \<and>
           (\<forall>t. errors_Is r t = errors_Is e t) \<and>
           kind_of r = kind_of e \<and>
           (kind_of r = Internal) = (kind_of e = Internal))"
proof (cases "errors_Is e storage_ErrUserNotFound")
  case True
  then show ?thesis
    by (simp add: IsAdmin_failed [OF assms] kind_of_def errvars)
next
  case False
  then show ?thesis
    by (simp add: IsAdmin_failed [OF assms] kind_of_Errorf)
qed

theorem IsAdmin_reader_failed_witness:
  "usrProvider_IsAdmin mem_Auth 9999 (ext world_one) =
     ((True, Some (Errorf ''storage.mem.IsAdmin'' (Sentinel storage_ErrUserNotFound))), ext world_one) \<and>
   errors_Is (Errorf ''storage.mem.IsAdmin'' (Sentinel storage_ErrUserNotFound)) storage_ErrUserNotFound \<and>
   (\<exists>r. fst (IsAdmin mem_Auth 9999 world_one) = (False, Some r) \<and>
        r = Errorf ''auth.IsAdmin'' (Sentinel ErrInvalidAppID) \<and> kind_of r = InvalidAppID \<and>
        \<not> errors_Is r storage_ErrUserNotFound \<and> \<not> errors_Is r ErrUserNotFound) \<and>
   usrProvider_IsAdmin mem_Auth 1 (ext world_down) =
     ((True, Some (Errorf ''storage.mem.IsAdmin'' (Sentinel context_DeadlineExceeded))), ext world_down) \<and>
   (\<exists>r. fst (IsAdmin mem_Auth 1 world_down) = (False, Some r) \<and>
        r = Errorf ''auth.IsAdmin'' (Errorf ''storage.mem.IsAdmin'' (Sentinel context_DeadlineExceeded)) \<and>
        errors_Is r context_DeadlineExceeded \<and> kind_of r = Internal)"
proof -
  let ?nf = "Errorf ''storage.mem.IsAdmin'' (Sentinel storage_ErrUserNotFound)"
  let ?dl = "Errorf ''storage.mem.IsAdmin'' (Sentinel context_DeadlineExceeded)"
  have h1: "usrProvider_IsAdmin mem_Auth 9999 (ext world_one) = ((True, Some ?nf), ext world_one)"
    by (simp add: doubles)
  have h2: "errors_Is ?nf storage_ErrUserNotFound"
    by simp
  have k1: "usrProvider_IsAdmin mem_Auth 1 (ext world_down) = ((True, Some ?dl), ext world_down)"
    by (simp add: doubles)
  have k2: "\<not> errors_Is ?dl storage_ErrUserNotFound"
    by (simp add: errvars)
  have k3: "kind_of ?dl = Internal"
    by (simp add: kind_of_def errvars)
  have k4: "errors_Is ?dl context_DeadlineExceeded"
    by simp
  from IsAdmin_reader_failed [OF h1] h2
  have c1: "\<exists>r. fst (IsAdmin mem_Auth 9999 world_one) = (False, Some r) \<and>
        r = Errorf ''auth.IsAdmin'' (Sentinel ErrInvalidAppID) \<and> kind_of r = InvalidAppID \<and>
        \<not> errors_Is r storage_ErrUserNotFound \<and> \<not> errors_Is r ErrUserNotFound"
    by simp
  from IsAdmin_reader_failed [OF k1] k2 k3 k4
  have c2: "\<exists>r. fst (IsAdmin mem_Auth 1 world_down) = (False, Some r) \<and>
        r = Errorf ''auth.IsAdmin'' ?dl \<and>
        errors_Is r context_DeadlineExceeded \<and> kind_of r = Internal"
    by simp
  from h1 h2 c1 k1 c2 show ?thesis by (intro conjI)
qed

section \<open>RegisterNewUser: the error mapping\<close>

text \<open>
  C5, as stated, fails. A writer that reports no storage conflict but whose error wraps
  \<open>ErrUserExists\<close> makes \<open>RegisterNewUser\<close> return an error of kind \<open>UserExists\<close>; and a
  writer that times out makes it return an error in which the caller's \<open>errors.Is\<close> finds
  the expired deadline, so the error is not opaque.
\<close>

theorem writer_error_is_handed_on:
  "bcrypt_GenerateFromPassword mem_extern ''pw123'' bcrypt_DefaultCost (ext world_one) =
     ((''$2a$pw123'', None), ext world_one) \<and>
   usrSaver_SaveUser relay_Auth ''c@x.com'' ''$2a$pw123'' (ext world_one) =
     ((0, Some (Errorf ''relay.SaveUser'' (Sentinel ErrUserExists))), ext world_one) \<and>
   \<not> errors_Is (Errorf ''relay.SaveUser'' (Sentinel ErrUserExists)) storage_ErrUserExists \<and>
   fst (RegisterNewUser mem_extern relay_Auth ''c@x.com'' ''pw123'' world_one) =
     (0, Some (Errorf ''auth.RegisterNewUser'' (Errorf ''relay.SaveUser'' (Sentinel ErrUserExists)))) \<and>
   kind_of (Errorf ''auth.RegisterNewUser'' (Errorf ''relay.SaveUser'' (Sentinel ErrUserExists))) =
     UserExists \<and>
   usrSaver_SaveUser mem_Auth ''c@x.com'' ''$2a$pw123'' (ext world_down) =
     ((7, Some (Errorf ''storage.mem.SaveUser'' (Sentinel context_DeadlineExceeded))), ext world_down) \<and>
   fst (RegisterNewUser mem_extern mem_Auth ''c@x.com'' ''pw123'' world_down) =
     (0, Some (Errorf ''auth.RegisterNewUser''
        (Errorf ''storage.mem.SaveUser'' (Sentinel context_DeadlineExceeded)))) \<and>
   errors_Is (Errorf ''auth.RegisterNewUser''
        (Errorf ''storage.mem.SaveUser'' (Sentinel context_DeadlineExceeded)))
     context_DeadlineExceeded"
  by (simp add: RegisterNewUser_def invoke_def kind_of_def bcrypt_DefaultCost_def doubles errvars)

text \<open>
  C5, amended. When the password was hashed and the writer answers with an error in which
  \<open>errors.Is\<close> finds the storage "user exists" variable, \<open>RegisterNewUser\<close> returns user ID
  0 and \<open>ErrUserExists\<close> wrapped under the operation name, an error of kind \<open>UserExists\<close>.
  A hashing failure, and any other writer failure, gives user ID 0 and the error of the
  failing call wrapped under the operation name: \<open>errors.Is\<close> finds in it exactly what it
  finds in that error, and its kind is the kind of that error. So the returned error has
  kind \<open>UserExists\<close> exactly when the writer reported the conflict or the error of the
  failing call is itself of kind \<open>UserExists\<close>.
\<close>

theorem RegisterNewUser_error_kinds:
  assumes gen: "bcrypt_GenerateFromPassword x password bcrypt_DefaultCost (ext w) = ((h, gerr), s1)"
    and sav: "usrSaver_SaveUser a email h s1 = ((uid, serr), s2)"
  shows "(gerr = None \<and> (\<exists>e. serr = Some e \<and> errors_Is e storage_ErrUserExists) \<longrightarrow>
            fst (RegisterNewUser x a email password w) =
              (0, Some (Errorf ''auth.RegisterNewUser'' (Sentinel ErrUserExists))) \<and>
            kind_of (Errorf ''auth.RegisterNewUser'' (Sentinel ErrUserExists)) = UserExists) \<and>
         (\<forall>e. gerr = Some e \<or> gerr = None \<and> serr = Some e \<and> \<not> errors_Is e storage_ErrUserExists \<longrightarrow>
            (\<exists>r. fst (RegisterNewUser x a email password w) = (0, Some r) \<and>
                 r = Errorf ''auth.RegisterNewUser'' e \<and>
                 (\<forall>t. errors_Is r t = errors_Is e t) \<and>
                 kind_of r = kind_of e)) \<and>
         ((\<exists>r. snd (fst (RegisterNewUser x a email password w)) = Some r \<and> kind_of r = UserExists)
            \<longleftrightarrow> gerr = None \<and> (\<exists>e. serr = Some e \<and> errors_Is e storage_ErrUserExists) \<or>
                (\<exists>e. (gerr = Some e \<or> gerr = None \<and> serr = Some e) \<and> kind_of e = UserExists))"
proof -
  let ?R = "RegisterNewUser x a email password w"
  let ?opn = "''auth.RegisterNewUser''"
  have hashed: "fst ?R = (0, Some (Errorf ?opn e))" if "gerr = Some e" for e
    using RegisterNewUser_hash_failed [of x password w h e s1 a email] gen that by simp
  have conflict: "fst ?R = (0, Some (Errorf ?opn (Sentinel ErrUserExists)))"
    if "gerr = None" "serr = Some e" "errors_Is e storage_ErrUserExists" for e
    using RegisterNewUser_save_failed [of x password w h s1 a email uid e s2] gen sav that by simp
  have other: "fst ?R = (0, Some (Errorf ?opn e))"
    if "gerr = None" "serr = Some e" "\<not> errors_Is e storage_ErrUserExists" for e
    using RegisterNewUser_save_failed [of x password w h s1 a email uid e s2] gen sav that by simp
  have saved: "fst ?R = (uid, None)" if "gerr = None" "serr = None"
    using RegisterNewUser_saved [of x password w h s1 a email uid s2] gen sav that by simp
  have ke: "kind_of (Errorf ?opn (Sentinel ErrUserExists)) = UserExists"
    by (simp add: kind_of_Errorf kind_of_sentinels)
  have A: "gerr = None \<and> (\<exists>e. serr = Some e \<and> errors_Is e storage_ErrUserExists) \<longrightarrow>
            fst ?R = (0, Some (Errorf ?opn (Sentinel ErrUserExists))) \<and>
            kind_of (Errorf ?opn (Sentinel ErrUserExists)) = UserExists"
    using conflict ke by blast
  have wrapped: "\<exists>r. fst ?R = (0, Some r) \<and> r = Errorf ?opn e \<and>
      (\<forall>t. errors_Is r t = errors_Is e t) \<and> kind_of r = kind_of e"
    if "fst ?R = (0, Some (Errorf ?opn e))" for e
    using that by (simp add: kind_of_Errorf)
  have B: "\<forall>e. gerr = Some e \<or> gerr = None \<and> serr = Some e \<and> \<not> errors_Is e storage_ErrUserExists \<longrightarrow>
            (\<exists>r. fst ?R = (0, Some r) \<and> r = Errorf ?opn e \<and>
                 (\<forall>t. errors_Is r t = errors_Is e t) \<and> kind_of r = kind_of e)"
  proof (intro allI impI)
    fix e
    assume "gerr = Some e \<or> gerr = None \<and> serr = Some e \<and> \<not> errors_Is e storage_ErrUserExists"
    then have "fst ?R = (0, Some (Errorf ?opn e))"
    proof (elim disjE conjE)
      assume "gerr = Some e"
      then show ?thesis by (rule hashed)
    next
      assume "gerr = None" "serr = Some e" "\<not> errors_Is e storage_ErrUserExists"
      then show ?thesis by (rule other)
    qed
    then show "\<exists>r. fst ?R = (0, Some r) \<and> r = Errorf ?opn e \<and>
                 (\<forall>t. errors_Is r t = errors_Is e t) \<and> kind_of r = kind_of e"
      by (rule wrapped)
  qed
  have C: "(\<exists>r. snd (fst ?R) = Some r \<and> kind_of r = UserExists)
            \<longleftrightarrow> gerr = None \<and> (\<exists>e. serr = Some e \<and> errors_Is e storage_ErrUserExists) \<or>
                (\<exists>e. (gerr = Some e \<or> gerr = None \<and> serr = Some e) \<and> kind_of e = UserExists)"
  proof (cases gerr)
    case (Some e)
    have "snd (fst ?R) = Some (Errorf ?opn e)"
      using hashed [OF Some] by simp
    then have "(\<exists>r. snd (fst ?R) = Some r \<and> kind_of r = UserExists) = (kind_of e = UserExists)"
      by (simp add: kind_of_Errorf)
    moreover have "(gerr = None \<and> (\<exists>e. serr = Some e \<and> errors_Is e storage_ErrUserExists) \<or>
                (\<exists>e. (gerr = Some e \<or> gerr = None \<and> serr = Some e) \<and> kind_of e = UserExists))
        = (kind_of e = UserExists)"
      using Some by simp
    ultimately show ?thesis by simp
  next
    case None
    note g = None
    show ?thesis
    proof (cases serr)
      case None
      have "snd (fst ?R) = None"
        using saved [OF g None] by simp
      then have "\<not> (\<exists>r. snd (fst ?R) = Some r \<and> kind_of r = UserExists)"
        by simp
      moreover have "\<not> (gerr = None \<and> (\<exists>e. serr = Some e \<and> errors_Is e storage_ErrUserExists) \<or>
                (\<exists>e. (gerr = Some e \<or> gerr = None \<and> serr = Some e) \<and> kind_of e = UserExists))"
        using g None by simp
      ultimately show ?thesis by blast
    next
      case (Some e)
      show ?thesis
      proof (cases "errors_Is e storage_ErrUserExists")
        case True
        have "snd (fst ?R) = Some (Errorf ?opn (Sentinel ErrUserExists))"
          using conflict [OF g Some True] by simp
        then have "\<exists>r. snd (fst ?R) = Some r \<and> kind_of r = UserExists"
          using ke by simp
        moreover have "gerr = None \<and> (\<exists>e. serr = Some e \<and> errors_Is e storage_ErrUserExists) \<or>
                (\<exists>e. (gerr = Some e \<or> gerr = None \<and> serr = Some e) \<and> kind_of e = UserExists)"
          using g Some True by simp
        ultimately show ?thesis by blast
      next
        case False
        have "snd (fst ?R) = Some (Errorf ?opn e)"
          using other [OF g Some False] by simp
        then have "(\<exists>r. snd (fst ?R) = Some r \<and> kind_of r = UserExists) = (kind_of e = UserExists)"
          by (simp add: kind_of_Errorf)
        moreover have "(gerr = None \<and> (\<exists>e. serr = Some e \<and> errors_Is e storage_ErrUserExists) \<or>
                (\<exists>e. (gerr = Some e \<or> gerr = None \<and> serr = Some e) \<and> kind_of e = UserExists))
            = (kind_of e = UserExists)"
          using g Some False by simp
        ultimately show ?thesis by simp
      qed
    qed
  qed
  from A B C show ?thesis by (intro conjI)
qed

theorem RegisterNewUser_error_kinds_witness:
  "bcrypt_GenerateFromPassword mem_extern ''pw123'' bcrypt_DefaultCost (ext world_one) =
     ((''$2a$pw123'', None), ext world_one) \<and>
   usrSaver_SaveUser mem_Auth ''a@x.com'' ''$2a$pw123'' (ext world_one) =
     ((7, Some (Errorf ''storage.mem.SaveUser'' (Sentinel storage_ErrUserExists))), ext world_one) \<and>
   errors_Is (Errorf ''storage.mem.SaveUser'' (Sentinel storage_ErrUserExists)) storage_ErrUserExists \<and>
   fst (RegisterNewUser mem_extern mem_Auth ''a@x.com'' ''pw123'' world_one) =
     (0, Some (Errorf ''auth.RegisterNewUser'' (Sentinel ErrUserExists))) \<and>
   kind_of (Errorf ''auth.RegisterNewUser'' (Sentinel ErrUserExists)) = UserExists \<and>
   usrSaver_SaveUser mem_Auth ''a@x.com'' ''$2a$pw123'' (ext world_down) =
     ((7, Some (Errorf ''storage.mem.SaveUser'' (Sentinel context_DeadlineExceeded))), ext world_down) \<and>
   (\<exists>r. fst (RegisterNewUser mem_extern mem_Auth ''a@x.com'' ''pw123'' world_down) = (0, Some r) \<and>
        r = Errorf ''auth.RegisterNewUser''
          (Errorf ''storage.mem.SaveUser'' (Sentinel context_DeadlineExceeded)) \<and>
        kind_of r = Internal) \<and>
   bcrypt_GenerateFromPassword mem_extern (replicate 73 CHR ''p'') bcrypt_DefaultCost (ext world_empty) =
     ((''junk'', Some (Sentinel (ErrVar ''bcrypt'' ''ErrPasswordTooLong''))), ext world_empty) \<and>
   (\<exists>r. fst (RegisterNewUser mem_extern mem_Auth ''c@x.com'' (replicate 73 CHR ''p'') world_empty) = (0, Some r) \<and>
        r = Errorf ''auth.RegisterNewUser'' (Sentinel (ErrVar ''bcrypt'' ''ErrPasswordTooLong'')) \<and>
        kind_of r = Internal)"
proof -
  let ?ex = "Errorf ''storage.mem.SaveUser'' (Sentinel storage_ErrUserExists)"
  let ?dl = "Errorf ''storage.mem.SaveUser'' (Sentinel context_DeadlineExceeded)"
  let ?tl = "Sentinel (ErrVar ''bcrypt'' ''ErrPasswordTooLong'')"
  have g1: "bcrypt_GenerateFromPassword mem_extern ''pw123'' bcrypt_DefaultCost (ext world_one) =
     ((''$2a$pw123'', None), ext world_one)"
    by (simp add: doubles)
  have s1: "usrSaver_SaveUser mem_Auth ''a@x.com'' ''$2a$pw123'' (ext world_one) =
     ((7, Some ?ex), ext world_one)"
    by (simp add: doubles)
  have i1: "errors_Is ?ex storage_ErrUserExists"
    by simp
  have p1: "(None :: err option) = None \<and> (\<exists>e. Some ?ex = Some e \<and> errors_Is e storage_ErrUserExists)"
    using i1 by simp
  note c1 = RegisterNewUser_error_kinds [OF g1 s1, THEN conjunct1, THEN mp, OF p1]
  have g2: "bcrypt_GenerateFromPassword mem_extern ''pw123'' bcrypt_DefaultCost (ext world_down) =
     ((''$2a$pw123'', None), ext world_down)"
    by (simp add: doubles)
  have s2: "usrSaver_SaveUser mem_Auth ''a@x.com'' ''$2a$pw123'' (ext world_down) =
     ((7, Some ?dl), ext world_down)"
    by (simp add: doubles)
  have k2: "kind_of ?dl = Internal"
    by (simp add: kind_of_def errvars)
  have p2: "(None :: err option) = Some ?dl \<or>
      (None :: err option) = None \<and> Some ?dl = Some ?dl \<and> \<not> errors_Is ?dl storage_ErrUserExists"
    by (simp add: errvars)
  note b2 = RegisterNewUser_error_kinds [OF g2 s2, THEN conjunct2, THEN conjunct1, rule_format, OF p2]
  from b2 obtain r2 where
    r2: "fst (RegisterNewUser mem_extern mem_Auth ''a@x.com'' ''pw123'' world_down) = (0, Some r2)"
    and e2: "r2 = Errorf ''auth.RegisterNewUser'' ?dl"
    and q2: "kind_of r2 = kind_of ?dl"
    by (elim exE conjE)
  from q2 k2 have "kind_of r2 = Internal" by (rule trans)
  with r2 e2 have "fst (RegisterNewUser mem_extern mem_Auth ''a@x.com'' ''pw123'' world_down) = (0, Some r2) \<and>
        r2 = Errorf ''auth.RegisterNewUser'' ?dl \<and> kind_of r2 = Internal"
    by (intro conjI)
  then have c2: "\<exists>r. fst (RegisterNewUser mem_extern mem_Auth ''a@x.com'' ''pw123'' world_down) = (0, Some r) \<and>
        r = Errorf ''auth.RegisterNewUser'' ?dl \<and> kind_of r = Internal"
    by (rule_tac x = r2 in exI)
  have g3: "bcrypt_GenerateFromPassword mem_extern (replicate 73 CHR ''p'') bcrypt_DefaultCost (ext world_empty) =
     ((''junk'', Some ?tl), ext world_empty)"
    by (simp add: doubles)
  obtain uid3 serr3 st3 where
    s3: "usrSaver_SaveUser mem_Auth ''c@x.com'' ''junk'' (ext world_empty) = ((uid3, serr3), st3)"
    by (metis surj_pair)
  have k3: "kind_of ?tl = Internal"
    by (simp add: kind_of_def errvars)
  have p3: "Some ?tl = Some ?tl \<or>
      Some ?tl = None \<and> serr3 = Some ?tl \<and> \<not> errors_Is ?tl storage_ErrUserExists"
    by simp
  note b3 = RegisterNewUser_error_kinds [OF g3 s3, THEN conjunct2, THEN conjunct1, rule_format, OF p3]
  from b3 obtain r3 where
    r3: "fst (RegisterNewUser mem_extern mem_Auth ''c@x.com'' (replicate 73 CHR ''p'') world_empty) = (0, Some r3)"
    and e3: "r3 = Errorf ''auth.RegisterNewUser'' ?tl"
    and q3: "kind_of r3 = kind_of ?tl"
    by (elim exE conjE)
  from q3 k3 have "kind_of r3 = Internal" by (rule trans)
  with r3 e3 have "fst (RegisterNewUser mem_extern mem_Auth ''c@x.com'' (replicate 73 CHR ''p'') world_empty) = (0, Some r3) \<and>
        r3 = Errorf ''auth.RegisterNewUser'' ?tl \<and> kind_of r3 = Internal"
    by (intro conjI)
  then have c3: "\<exists>r. fst (RegisterNewUser mem_extern mem_Auth ''c@x.com'' (replicate 73 CHR ''p'') world_empty) = (0, Some r) \<and>
        r = Errorf ''auth.RegisterNewUser'' ?tl \<and> kind_of r = Internal"
    by (rule_tac x = r3 in exI)
  from c1 have c1a: "fst (RegisterNewUser mem_extern mem_Auth ''a@x.com'' ''pw123'' world_one) =
       (0, Some (Errorf ''auth.RegisterNewUser'' (Sentinel ErrUserExists)))"
    by (rule conjunct1)
  from c1 have c1b: "kind_of (Errorf ''auth.RegisterNewUser'' (Sentinel ErrUserExists)) = UserExists"
    by (rule conjunct2)
  from g1 s1 i1 c1a c1b s2 c2 g3 c3 show ?thesis by (intro conjI)
qed

section \<open>The issued token\<close>

text \<open>
  C6. A \<open>Login\<close> that succeeds returns the string that the signer gave for a token \<open>T\<close>
  and the secret of the app the app reader resolved. \<open>T\<close> has signing method HS256 and
  exactly four claims: \<open>uid\<close>, the ID of the user the user reader resolved; \<open>app_id\<close>,
  the ID of that app; \<open>exp\<close>, the Unix seconds of the clock reading plus the configured
  TTL; and \<open>email\<close>, the user's email.
\<close>

theorem Login_token_contents:
  assumes "Login x a email password appID w = ((tok, None), w')"
  shows "\<exists>u s1 ap T.
     usrProvider_User a email (ext w) = ((u, None), s1) \<and>
     appProvider_App a appID s1 = ((ap, None), ext w') \<and>
     calls w' = calls w @ [Call_User email (u, None),
        Call_CompareHashAndPassword (User.PassHash u) password None,
        Call_App appID (ap, None), Call_Now (time_Now x (ext w')),
        Call_SignedString T (App.Secret ap) (tok, None)] \<and>
     jwt_SignedString x T (App.Secret ap) = (tok, None) \<and>
     Method T = SigningMethodHS256 \<and> Header T ''alg'' = Some ''HS256'' \<and>
     dom (Claims T) = {''uid'', ''app_id'', ''exp'', ''email''} \<and>
     Claims T ''uid'' = Some (IntClaim (User.ID u)) \<and>
     Claims T ''app_id'' = Some (IntClaim (App.ID ap)) \<and>
     Claims T ''exp'' = Some (IntClaim (Time_Unix (Time_Add (time_Now x (ext w')) (tokenTTL a)))) \<and>
     Claims T ''email'' = Some (StringClaim (User.Email u))"
proof -
  from assms obtain u s1 ap where
    l: "usrProvider_User a email (ext w) = ((u, None), s1)"
    and p: "appProvider_App a appID s1 = ((ap, None), ext w')"
    and g: "jwt_SignedString x (issued u ap (tokenTTL a) (time_Now x (ext w'))) (App.Secret ap) = (tok, None)"
    and c: "calls w' = calls w @ [Call_User email (u, None),
        Call_CompareHashAndPassword (User.PassHash u) password None,
        Call_App appID (ap, None), Call_Now (time_Now x (ext w')),
        Call_SignedString (issued u ap (tokenTTL a) (time_Now x (ext w'))) (App.Secret ap) (tok, None)]"
    by (rule Login_succeeded)
  let ?T = "issued u ap (tokenTTL a) (time_Now x (ext w'))"
  have "usrProvider_User a email (ext w) = ((u, None), s1) \<and>
     appProvider_App a appID s1 = ((ap, None), ext w') \<and>
     calls w' = calls w @ [Call_User email (u, None),
        Call_CompareHashAndPassword (User.PassHash u) password None,
        Call_App appID (ap, None), Call_Now (time_Now x (ext w')),
        Call_SignedString ?T (App.Secret ap) (tok, None)] \<and>
     jwt_SignedString x ?T (App.Secret ap) = (tok, None) \<and>
     Method ?T = SigningMethodHS256 \<and> Header ?T ''alg'' = Some ''HS256'' \<and>
     dom (Claims ?T) = {''uid'', ''app_id'', ''exp'', ''email''} \<and>
     Claims ?T ''uid'' = Some (IntClaim (User.ID u)) \<and>
     Claims ?T ''app_id'' = Some (IntClaim (App.ID ap)) \<and>
     Claims ?T ''exp'' = Some (IntClaim (Time_Unix (Time_Add (time_Now x (ext w')) (tokenTTL a)))) \<and>
     Claims ?T ''email'' = Some (StringClaim (User.Email u))"
    using l p g c by (simp add: issued_fields)
  then show ?thesis by (intro exI)
qed

theorem Login_token_contents_witness:
  "Login mem_extern mem_Auth ''a@x.com'' ''pw123'' 1 world_one =
     ((''HS256.terc3s'', None), snd (Login mem_extern mem_Auth ''a@x.com'' ''pw123'' 1 world_one)) \<and>
   (\<exists>T. last (calls (snd (Login mem_extern mem_Auth ''a@x.com'' ''pw123'' 1 world_one))) =
          Call_SignedString T ''s3cret'' (''HS256.terc3s'', None) \<and>
        Method T = SigningMethodHS256 \<and>
        dom (Claims T) = {''uid'', ''app_id'', ''exp'', ''email''} \<and>
        Claims T ''uid'' = Some (IntClaim 1) \<and>
        Claims T ''app_id'' = Some (IntClaim 1) \<and>
        Claims T ''exp'' = Some (IntClaim 1700003600) \<and>
        Claims T ''email'' = Some (StringClaim ''a@x.com''))"
proof -
  let ?w' = "snd (Login mem_extern mem_Auth ''a@x.com'' ''pw123'' 1 world_one)"
  from Login_token_contents [OF Login_world_one] obtain u s1 ap T where
    all: "usrProvider_User mem_Auth ''a@x.com'' (ext world_one) = ((u, None), s1) \<and>
      appProvider_App mem_Auth 1 s1 = ((ap, None), ext ?w') \<and>
      calls ?w' = calls world_one @ [Call_User ''a@x.com'' (u, None),
        Call_CompareHashAndPassword (User.PassHash u) ''pw123'' None,
        Call_App 1 (ap, None), Call_Now (time_Now mem_extern (ext ?w')),
        Call_SignedString T (App.Secret ap) (''HS256.terc3s'', None)] \<and>
      jwt_SignedString mem_extern T (App.Secret ap) = (''HS256.terc3s'', None) \<and>
      Method T = SigningMethodHS256 \<and> Header T ''alg'' = Some ''HS256'' \<and>
      dom (Claims T) = {''uid'', ''app_id'', ''exp'', ''email''} \<and>
      Claims T ''uid'' = Some (IntClaim (User.ID u)) \<and>
      Claims T ''app_id'' = Some (IntClaim (App.ID ap)) \<and>
      Claims T ''exp'' = Some (IntClaim (Time_Unix (Time_Add (time_Now mem_extern (ext ?w')) (tokenTTL mem_Auth)))) \<and>
      Claims T ''email'' = Some (StringClaim (User.Email u))"
    by (elim exE) (rule that)
  from all have l: "usrProvider_User mem_Auth ''a@x.com'' (ext world_one) = ((u, None), s1)"
    and p: "appProvider_App mem_Auth 1 s1 = ((ap, None), ext ?w')"
    and c: "calls ?w' = calls world_one @ [Call_User ''a@x.com'' (u, None),
        Call_CompareHashAndPassword (User.PassHash u) ''pw123'' None,
        Call_App 1 (ap, None), Call_Now (time_Now mem_extern (ext ?w')),
        Call_SignedString T (App.Secret ap) (''HS256.terc3s'', None)]"
    and t: "Method T = SigningMethodHS256"
      "dom (Claims T) = {''uid'', ''app_id'', ''exp'', ''email''}"
      "Claims T ''uid'' = Some (IntClaim (User.ID u))"
      "Claims T ''app_id'' = Some (IntClaim (App.ID ap))"
      "Claims T ''exp'' = Some (IntClaim (Time_Unix (Time_Add (time_Now mem_extern (ext ?w')) (tokenTTL mem_Auth))))"
      "Claims T ''email'' = Some (StringClaim (User.Email u))"
    by simp_all
  from l have u: "u = user_a" and s1: "s1 = ext world_one" by (auto simp add: doubles)
  from p s1 have ap: "ap = \<lparr>App.ID = 1, Secret = ''s3cret''\<rparr>" by (simp add: doubles)
  have e: "Time_Unix (Time_Add (time_Now mem_extern (ext ?w')) (tokenTTL mem_Auth)) = 1700003600"
    by (simp only: world_one_final_ext) (simp add: Time_Unix_def Time_Add_def doubles)
  have b: "last (calls ?w') = Call_SignedString T ''s3cret'' (''HS256.terc3s'', None) \<and>
        Method T = SigningMethodHS256 \<and>
        dom (Claims T) = {''uid'', ''app_id'', ''exp'', ''email''} \<and>
        Claims T ''uid'' = Some (IntClaim 1) \<and>
        Claims T ''app_id'' = Some (IntClaim 1) \<and>
        Claims T ''exp'' = Some (IntClaim 1700003600) \<and>
        Claims T ''email'' = Some (StringClaim ''a@x.com'')"
    using c t by (simp add: u ap e user_a_def)
  have "\<exists>T. last (calls ?w') = Call_SignedString T ''s3cret'' (''HS256.terc3s'', None) \<and>
        Method T = SigningMethodHS256 \<and>
        dom (Claims T) = {''uid'', ''app_id'', ''exp'', ''email''} \<and>
        Claims T ''uid'' = Some (IntClaim 1) \<and>
        Claims T ''app_id'' = Some (IntClaim 1) \<and>
        Claims T ''exp'' = Some (IntClaim 1700003600) \<and>
        Claims T ''email'' = Some (StringClaim ''a@x.com'')"
    by (rule exI [of _ T]) (rule b)
  with Login_world_one show ?thesis by (rule conjI)
qed

section \<open>What reaches the caller of a failed operation\<close>




section \<open>The order of the steps of Login\<close>

text \<open>
  C8. \<open>Login\<close> asks the user reader first; only if it answers without error does it compare
  the password with the stored hash; only if that succeeds does it ask the app reader; only
  if that answers without error does it read the clock and have the token signed. Whatever
  the capabilities and libraries answer, a run is one of five: it stops at the first of
  these calls that answers with an error, returning the empty token and an error, with
  only the calls up to that one made (so the app reader is not asked after a failed lookup
  or comparison); or all of them succeed and it returns what the signer answered. In each
  case the state of the world and the record of calls are exactly those of the calls made.
\<close>

theorem Login_step_order:
  "(\<exists>u e s1.
      usrProvider_User a email (ext w) = ((u, Some e), s1) \<and>
      Login x a email password appID w =
        (('''', Some (Errorf ''auth.Login''
            (if errors_Is e storage_ErrUserNotFound then Sentinel ErrInvalidCredentials else e))),
         \<lparr>ext = s1, calls = calls w @ [Call_User email (u, Some e)]\<rparr>)) \<or>
   (\<exists>u s1 ce.
      usrProvider_User a email (ext w) = ((u, None), s1) \<and>
      bcrypt_CompareHashAndPassword x (User.PassHash u) password = Some ce \<and>
      Login x a email password appID w =
        (('''', Some (Errorf ''auth.Login'' (Sentinel ErrInvalidCredentials))),
         \<lparr>ext = s1, calls = calls w @ [Call_User email (u, None),
            Call_CompareHashAndPassword (User.PassHash u) password (Some ce)]\<rparr>)) \<or>
   (\<exists>u s1 ap e s2.
      usrProvider_User a email (ext w) = ((u, None), s1) \<and>
      bcrypt_CompareHashAndPassword x (User.PassHash u) password = None \<and>
      appProvider_App a appID s1 = ((ap, Some e), s2) \<and>
      Login x a email password appID w =
        (('''', Some (Errorf ''auth.Login'' e)),
         \<lparr>ext = s2, calls = calls w @ [Call_User email (u, None),
            Call_CompareHashAndPassword (User.PassHash u) password None,
            Call_App appID (ap, Some e)]\<rparr>)) \<or>
   (\<exists>u s1 ap s2 ts e.
      usrProvider_User a email (ext w) = ((u, None), s1) \<and>
      bcrypt_CompareHashAndPassword x (User.PassHash u) password = None \<and>
      appProvider_App a appID s1 = ((ap, None), s2) \<and>
      jwt_SignedString x (issued u ap (tokenTTL a) (time_Now x s2)) (App.Secret ap) = (ts, Some e) \<and>
      Login x a email password appID w =
        (('''', Some (Errorf ''auth.Login'' e)),
         \<lparr>ext = s2, calls = calls w @ [Call_User email (u, None),
            Call_CompareHashAndPassword (User.PassHash u) password None,
            Call_App appID (ap, None), Call_Now (time_Now x s2),
            Call_SignedString (issued u ap (tokenTTL a) (time_Now x s2)) (App.Secret ap)
              (ts, Some e)]\<rparr>)) \<or>
   (\<exists>u s1 ap s2 ts.
      usrProvider_User a email (ext w) = ((u, None), s1) \<and>
      bcrypt_CompareHashAndPassword x (User.PassHash u) password = None \<and>
      appProvider_App a appID s1 = ((ap, None), s2) \<and>
      jwt_SignedString x (issued u ap (tokenTTL a) (time_Now x s2)) (App.Secret ap) = (ts, None) \<and>
      Login x a email password appID w =
        ((ts, None),
         \<lparr>ext = s2, calls = calls w @ [Call_User email (u, None),
            Call_CompareHashAndPassword (User.PassHash u) password None,
            Call_App appID (ap, None), Call_Now (time_Now x s2),
            Call_SignedString (issued u ap (tokenTTL a) (time_Now x s2)) (App.Secret ap)
              (ts, None)]\<rparr>))"
proof (cases rule: Login_cases [where a = a and email = email and w = w and x = x
      and password = password and appID = appID])
  case (lookup u e s1)
  have "usrProvider_User a email (ext w) = ((u, Some e), s1) \<and>
      Login x a email password appID w =
        (('''', Some (Errorf ''auth.Login''
            (if errors_Is e storage_ErrUserNotFound then Sentinel ErrInvalidCredentials else e))),
         \<lparr>ext = s1, calls = calls w @ [Call_User email (u, Some e)]\<rparr>)"
    using lookup Login_lookup_failed [OF lookup] by (intro conjI)
  then show ?thesis by (intro disjI1 exI)
next
  case (password u s1 ce)
  have "usrProvider_User a email (ext w) = ((u, None), s1) \<and>
      bcrypt_CompareHashAndPassword x (User.PassHash u) password = Some ce \<and>
      Login x a email password appID w =
        (('''', Some (Errorf ''auth.Login'' (Sentinel ErrInvalidCredentials))),
         \<lparr>ext = s1, calls = calls w @ [Call_User email (u, None),
            Call_CompareHashAndPassword (User.PassHash u) password (Some ce)]\<rparr>)"
    using password Login_password_failed [OF password] by (intro conjI)
  then show ?thesis by (intro disjI2 disjI1 exI)
next
  case (app u s1 ap e s2)
  have "usrProvider_User a email (ext w) = ((u, None), s1) \<and>
      bcrypt_CompareHashAndPassword x (User.PassHash u) password = None \<and>
      appProvider_App a appID s1 = ((ap, Some e), s2) \<and>
      Login x a email password appID w =
        (('''', Some (Errorf ''auth.Login'' e)),
         \<lparr>ext = s2, calls = calls w @ [Call_User email (u, None),
            Call_CompareHashAndPassword (User.PassHash u) password None,
            Call_App appID (ap, Some e)]\<rparr>)"
    using app Login_app_failed [OF app] by (intro conjI)
  then show ?thesis by (intro disjI2 disjI1 exI)
next
  case (token u s1 ap s2 ts se)
  show ?thesis
  proof (cases se)
    case (Some e)
    have l: "Login x a email password appID w =
        (('''', Some (Errorf ''auth.Login'' e)),
         \<lparr>ext = s2, calls = calls w @ [Call_User email (u, None),
            Call_CompareHashAndPassword (User.PassHash u) password None,
            Call_App appID (ap, None), Call_Now (time_Now x s2),
            Call_SignedString (issued u ap (tokenTTL a) (time_Now x s2)) (App.Secret ap)
              (ts, Some e)]\<rparr>)"
      using Some by (simp add: Login_token_step [OF token])
    have g: "jwt_SignedString x (issued u ap (tokenTTL a) (time_Now x s2)) (App.Secret ap) = (ts, Some e)"
      using token(4) Some by simp
    have "usrProvider_User a email (ext w) = ((u, None), s1) \<and>
      bcrypt_CompareHashAndPassword x (User.PassHash u) password = None \<and>
      appProvider_App a appID s1 = ((ap, None), s2) \<and>
      jwt_SignedString x (issued u ap (tokenTTL a) (time_Now x s2)) (App.Secret ap) = (ts, Some e) \<and>
      Login x a email password appID w =
        (('''', Some (Errorf ''auth.Login'' e)),
         \<lparr>ext = s2, calls = calls w @ [Call_User email (u, None),
            Call_CompareHashAndPassword (User.PassHash u) password None,
            Call_App appID (ap, None), Call_Now (time_Now x s2),
            Call_SignedString (issued u ap (tokenTTL a) (time_Now x s2)) (App.Secret ap)
              (ts, Some e)]\<rparr>)"
      using token(1-3) g l by (intro conjI)
    then show ?thesis by (intro disjI2 disjI1 exI)
  next
    case None
    have l: "Login x a email password appID w =
        ((ts, None),
         \<lparr>ext = s2, calls = calls w @ [Call_User email (u, None),
            Call_CompareHashAndPassword (User.PassHash u) password None,
            Call_App appID (ap, None), Call_Now (time_Now x s2),
            Call_SignedString (issued u ap (tokenTTL a) (time_Now x s2)) (App.Secret ap)
              (ts, None)]\<rparr>)"
      using None by (simp add: Login_token_step [OF token])
    have g: "jwt_SignedString x (issued u ap (tokenTTL a) (time_Now x s2)) (App.Secret ap) = (ts, None)"
      using token(4) None by simp
    have "usrProvider_User a email (ext w) = ((u, None), s1) \<and>
      bcrypt_CompareHashAndPassword x (User.PassHash u) password = None \<and>
      appProvider_App a appID s1 = ((ap, None), s2) \<and>
      jwt_SignedString x (issued u ap (tokenTTL a) (time_Now x s2)) (App.Secret ap) = (ts, None) \<and>
      Login x a email password appID w =
        ((ts, None),
         \<lparr>ext = s2, calls = calls w @ [Call_User email (u, None),
            Call_CompareHashAndPassword (User.PassHash u) password None,
            Call_App appID (ap, None), Call_Now (time_Now x s2),
            Call_SignedString (issued u ap (tokenTTL a) (time_Now x s2)) (App.Secret ap)
              (ts, None)]\<rparr>)"
      using token(1-3) g l by (intro conjI)
    then show ?thesis by (intro disjI2 exI)
  qed
qed

theorem Login_step_order_witness:
  "usrProvider_User mem_Auth ''a@x.com'' (ext world_one) = ((user_a, None), ext world_one) \<and>
   bcrypt_CompareHashAndPassword mem_extern (User.PassHash user_a) ''wrong'' =
     Some (Sentinel (ErrVar ''bcrypt'' ''ErrMismatchedHashAndPassword'')) \<and>
   Login mem_extern mem_Auth ''a@x.com'' ''wrong'' 1 world_one =
     (('''', Some (Errorf ''auth.Login'' (Sentinel ErrInvalidCredentials))),
      \<lparr>ext = ext world_one, calls = calls world_one @ [Call_User ''a@x.com'' (user_a, None),
         Call_CompareHashAndPassword (User.PassHash user_a) ''wrong''
           (Some (Sentinel (ErrVar ''bcrypt'' ''ErrMismatchedHashAndPassword'')))]\<rparr>)"
proof -
  have h1: "usrProvider_User mem_Auth ''a@x.com'' (ext world_one) = ((user_a, None), ext world_one)"
    by (simp add: doubles)
  have h2: "bcrypt_CompareHashAndPassword mem_extern (User.PassHash user_a) ''wrong'' =
     Some (Sentinel (ErrVar ''bcrypt'' ''ErrMismatchedHashAndPassword''))"
    by (simp add: doubles)
  note t = Login_step_order [where a = mem_Auth and email = "''a@x.com''" and w = world_one
      and x = mem_extern and password = "''wrong''" and appID = 1]
  have "Login mem_extern mem_Auth ''a@x.com'' ''wrong'' 1 world_one =
     (('''', Some (Errorf ''auth.Login'' (Sentinel ErrInvalidCredentials))),
      \<lparr>ext = ext world_one, calls = calls world_one @ [Call_User ''a@x.com'' (user_a, None),
         Call_CompareHashAndPassword (User.PassHash user_a) ''wrong''
           (Some (Sentinel (ErrVar ''bcrypt'' ''ErrMismatchedHashAndPassword'')))]\<rparr>)"
    using t h1 h2 by (elim disjE exE conjE) simp_all
  with h1 h2 show ?thesis by (intro conjI)
qed

section \<open>Repeated logins\<close>

text \<open>
  C9. Each of two successful runs of \<open>Login\<close> on the same inputs resolves the user and
  the app itself, reads the clock itself, in the state the app reader left, and calls the
  signer itself; what it returns is what the signer answered in that run for the token
  built from that run's clock reading. Nothing is kept from one run to the next. The \<open>exp\<close>
  claims of the two signed tokens are the Unix seconds of the two clock readings plus the
  TTL, so they are ordered as the clock readings are.
\<close>

theorem Login_issues_anew:
  assumes "Login x a email password appID w1 = ((t1, None), w1')"
    and "Login x a email password appID w2 = ((t2, None), w2')"
  shows "\<exists>u1 s1 ap1 n1 T1 u2 s2 ap2 n2 T2.
     usrProvider_User a email (ext w1) = ((u1, None), s1) \<and>
     appProvider_App a appID s1 = ((ap1, None), ext w1') \<and>
     n1 = time_Now x (ext w1') \<and>
     T1 = issued u1 ap1 (tokenTTL a) n1 \<and>
     jwt_SignedString x T1 (App.Secret ap1) = (t1, None) \<and>
     calls w1' = calls w1 @ [Call_User email (u1, None),
        Call_CompareHashAndPassword (User.PassHash u1) password None,
        Call_App appID (ap1, None), Call_Now n1,
        Call_SignedString T1 (App.Secret ap1) (t1, None)] \<and>
     usrProvider_User a email (ext w2) = ((u2, None), s2) \<and>
     appProvider_App a appID s2 = ((ap2, None), ext w2') \<and>
     n2 = time_Now x (ext w2') \<and>
     T2 = issued u2 ap2 (tokenTTL a) n2 \<and>
     jwt_SignedString x T2 (App.Secret ap2) = (t2, None) \<and>
     calls w2' = calls w2 @ [Call_User email (u2, None),
        Call_CompareHashAndPassword (User.PassHash u2) password None,
        Call_App appID (ap2, None), Call_Now n2,
        Call_SignedString T2 (App.Secret ap2) (t2, None)] \<and>
     Claims T1 ''exp'' = Some (IntClaim (Time_Unix (Time_Add n1 (tokenTTL a)))) \<and>
     Claims T2 ''exp'' = Some (IntClaim (Time_Unix (Time_Add n2 (tokenTTL a)))) \<and>
     (n1 \<le> n2 \<longrightarrow>
        Time_Unix (Time_Add n1 (tokenTTL a)) \<le> Time_Unix (Time_Add n2 (tokenTTL a)))"
proof -
  from assms(1) obtain u1 s1 ap1 where
    l1: "usrProvider_User a email (ext w1) = ((u1, None), s1)"
    and p1: "appProvider_App a appID s1 = ((ap1, None), ext w1')"
    and g1: "jwt_SignedString x (issued u1 ap1 (tokenTTL a) (time_Now x (ext w1'))) (App.Secret ap1) = (t1, None)"
    and c1: "calls w1' = calls w1 @ [Call_User email (u1, None),
        Call_CompareHashAndPassword (User.PassHash u1) password None,
        Call_App appID (ap1, None), Call_Now (time_Now x (ext w1')),
        Call_SignedString (issued u1 ap1 (tokenTTL a) (time_Now x (ext w1'))) (App.Secret ap1) (t1, None)]"
    by (rule Login_succeeded)
  from assms(2) obtain u2 s2 ap2 where
    l2: "usrProvider_User a email (ext w2) = ((u2, None), s2)"
    and p2: "appProvider_App a appID s2 = ((ap2, None), ext w2')"
    and g2: "jwt_SignedString x (issued u2 ap2 (tokenTTL a) (time_Now x (ext w2'))) (App.Secret ap2) = (t2, None)"
    and c2: "calls w2' = calls w2 @ [Call_User email (u2, None),
        Call_CompareHashAndPassword (User.PassHash u2) password None,
        Call_App appID (ap2, None), Call_Now (time_Now x (ext w2')),
        Call_SignedString (issued u2 ap2 (tokenTTL a) (time_Now x (ext w2'))) (App.Secret ap2) (t2, None)]"
    by (rule Login_succeeded)
  let ?n1 = "time_Now x (ext w1')" and ?n2 = "time_Now x (ext w2')"
  let ?T1 = "issued u1 ap1 (tokenTTL a) ?n1" and ?T2 = "issued u2 ap2 (tokenTTL a) ?n2"
  have x1: "Claims ?T1 ''exp'' = Some (IntClaim (Time_Unix (Time_Add ?n1 (tokenTTL a))))"
    by (rule issued_fields)
  have x2: "Claims ?T2 ''exp'' = Some (IntClaim (Time_Unix (Time_Add ?n2 (tokenTTL a))))"
    by (rule issued_fields)
  have m: "?n1 \<le> ?n2 \<longrightarrow>
        Time_Unix (Time_Add ?n1 (tokenTTL a)) \<le> Time_Unix (Time_Add ?n2 (tokenTTL a))"
    by (simp add: Time_Unix_Add_mono)
  have "usrProvider_User a email (ext w1) = ((u1, None), s1) \<and>
     appProvider_App a appID s1 = ((ap1, None), ext w1') \<and>
     ?n1 = time_Now x (ext w1') \<and>
     ?T1 = issued u1 ap1 (tokenTTL a) ?n1 \<and>
     jwt_SignedString x ?T1 (App.Secret ap1) = (t1, None) \<and>
     calls w1' = calls w1 @ [Call_User email (u1, None),
        Call_CompareHashAndPassword (User.PassHash u1) password None,
        Call_App appID (ap1, None), Call_Now ?n1,
        Call_SignedString ?T1 (App.Secret ap1) (t1, None)] \<and>
     usrProvider_User a email (ext w2) = ((u2, None), s2) \<and>
     appProvider_App a appID s2 = ((ap2, None), ext w2') \<and>
     ?n2 = time_Now x (ext w2') \<and>
     ?T2 = issued u2 ap2 (tokenTTL a) ?n2 \<and>
     jwt_SignedString x ?T2 (App.Secret ap2) = (t2, None) \<and>
     calls w2' = calls w2 @ [Call_User email (u2, None),
        Call_CompareHashAndPassword (User.PassHash u2) password None,
        Call_App appID (ap2, None), Call_Now ?n2,
        Call_SignedString ?T2 (App.Secret ap2) (t2, None)] \<and>
     Claims ?T1 ''exp'' = Some (IntClaim (Time_Unix (Time_Add ?n1 (tokenTTL a)))) \<and>
     Claims ?T2 ''exp'' = Some (IntClaim (Time_Unix (Time_Add ?n2 (tokenTTL a)))) \<and>
     (?n1 \<le> ?n2 \<longrightarrow>
        Time_Unix (Time_Add ?n1 (tokenTTL a)) \<le> Time_Unix (Time_Add ?n2 (tokenTTL a)))"
    using l1 p1 g1 c1 l2 p2 g2 c2 x1 x2 m refl [of ?n1] refl [of ?n2] refl [of ?T1] refl [of ?T2]
    by (intro conjI)
  then show ?thesis
    by (rule_tac x = u1 in exI, rule_tac x = s1 in exI, rule_tac x = ap1 in exI,
        rule_tac x = ?n1 in exI, rule_tac x = ?T1 in exI,
        rule_tac x = u2 in exI, rule_tac x = s2 in exI, rule_tac x = ap2 in exI,
        rule_tac x = ?n2 in exI, rule_tac x = ?T2 in exI)
qed

theorem Login_issues_anew_witness:
  "Login mem_extern mem_Auth ''a@x.com'' ''pw123'' 1 world_one =
     ((''HS256.terc3s'', None), snd (Login mem_extern mem_Auth ''a@x.com'' ''pw123'' 1 world_one)) \<and>
   Login mem_extern mem_Auth ''a@x.com'' ''pw123'' 1 world_later =
     ((''HS256+.terc3s'', None), snd (Login mem_extern mem_Auth ''a@x.com'' ''pw123'' 1 world_later)) \<and>
   (\<exists>T1 T2.
      T1 = issued user_a \<lparr>App.ID = 1, Secret = ''s3cret''\<rparr> 3600000000000 1700000000123456789 \<and>
      T2 = issued user_a \<lparr>App.ID = 1, Secret = ''s3cret''\<rparr> 3600000000000 1700000042000000000 \<and>
      jwt_SignedString mem_extern T1 ''s3cret'' = (''HS256.terc3s'', None) \<and>
      jwt_SignedString mem_extern T2 ''s3cret'' = (''HS256+.terc3s'', None) \<and>
      last (calls (snd (Login mem_extern mem_Auth ''a@x.com'' ''pw123'' 1 world_one))) =
        Call_SignedString T1 ''s3cret'' (''HS256.terc3s'', None) \<and>
      last (calls (snd (Login mem_extern mem_Auth ''a@x.com'' ''pw123'' 1 world_later))) =
        Call_SignedString T2 ''s3cret'' (''HS256+.terc3s'', None) \<and>
      Claims T1 ''exp'' = Some (IntClaim 1700003600) \<and>
      Claims T2 ''exp'' = Some (IntClaim 1700003642)) \<and>
   (1700003600 :: int) \<le> 1700003642"
proof -
  let ?w1 = "snd (Login mem_extern mem_Auth ''a@x.com'' ''pw123'' 1 world_one)"
  let ?w2 = "snd (Login mem_extern mem_Auth ''a@x.com'' ''pw123'' 1 world_later)"
  let ?app = "\<lparr>App.ID = 1, Secret = ''s3cret''\<rparr>"
  from Login_issues_anew [OF Login_world_one Login_world_later]
  obtain u1 s1 ap1 n1 T1 u2 s2 ap2 n2 T2 where
    all: "usrProvider_User mem_Auth ''a@x.com'' (ext world_one) = ((u1, None), s1) \<and>
     appProvider_App mem_Auth 1 s1 = ((ap1, None), ext ?w1) \<and>
     n1 = time_Now mem_extern (ext ?w1) \<and>
     T1 = issued u1 ap1 (tokenTTL mem_Auth) n1 \<and>
     jwt_SignedString mem_extern T1 (App.Secret ap1) = (''HS256.terc3s'', None) \<and>
     calls ?w1 = calls world_one @ [Call_User ''a@x.com'' (u1, None),
        Call_CompareHashAndPassword (User.PassHash u1) ''pw123'' None,
        Call_App 1 (ap1, None), Call_Now n1,
        Call_SignedString T1 (App.Secret ap1) (''HS256.terc3s'', None)] \<and>
     usrProvider_User mem_Auth ''a@x.com'' (ext world_later) = ((u2, None), s2) \<and>
     appProvider_App mem_Auth 1 s2 = ((ap2, None), ext ?w2) \<and>
     n2 = time_Now mem_extern (ext ?w2) \<and>
     T2 = issued u2 ap2 (tokenTTL mem_Auth) n2 \<and>
     jwt_SignedString mem_extern T2 (App.Secret ap2) = (''HS256+.terc3s'', None) \<and>
     calls ?w2 = calls world_later @ [Call_User ''a@x.com'' (u2, None),
        Call_CompareHashAndPassword (User.PassHash u2) ''pw123'' None,
        Call_App 1 (ap2, None), Call_Now n2,
        Call_SignedString T2 (App.Secret ap2) (''HS256+.terc3s'', None)] \<and>
     Claims T1 ''exp'' = Some (IntClaim (Time_Unix (Time_Add n1 (tokenTTL mem_Auth)))) \<and>
     Claims T2 ''exp'' = Some (IntClaim (Time_Unix (Time_Add n2 (tokenTTL mem_Auth)))) \<and>
     (n1 \<le> n2 \<longrightarrow>
        Time_Unix (Time_Add n1 (tokenTTL mem_Auth)) \<le> Time_Unix (Time_Add n2 (tokenTTL mem_Auth)))"
    by (elim exE) (rule that)
  from all have l1: "usrProvider_User mem_Auth ''a@x.com'' (ext world_one) = ((u1, None), s1)"
    by (elim conjE)
  from all have p1: "appProvider_App mem_Auth 1 s1 = ((ap1, None), ext ?w1)"
    by (elim conjE)
  from all have n1: "n1 = time_Now mem_extern (ext ?w1)"
    by (elim conjE)
  from all have T1: "T1 = issued u1 ap1 (tokenTTL mem_Auth) n1"
    by (elim conjE)
  from all have g1: "jwt_SignedString mem_extern T1 (App.Secret ap1) = (''HS256.terc3s'', None)"
    by (elim conjE)
  from all have c1: "calls ?w1 = calls world_one @ [Call_User ''a@x.com'' (u1, None),
        Call_CompareHashAndPassword (User.PassHash u1) ''pw123'' None,
        Call_App 1 (ap1, None), Call_Now n1,
        Call_SignedString T1 (App.Secret ap1) (''HS256.terc3s'', None)]"
    by (elim conjE)
  from all have l2: "usrProvider_User mem_Auth ''a@x.com'' (ext world_later) = ((u2, None), s2)"
    by (elim conjE)
  from all have p2: "appProvider_App mem_Auth 1 s2 = ((ap2, None), ext ?w2)"
    by (elim conjE)
  from all have n2: "n2 = time_Now mem_extern (ext ?w2)"
    by (elim conjE)
  from all have T2: "T2 = issued u2 ap2 (tokenTTL mem_Auth) n2"
    by (elim conjE)
  from all have g2: "jwt_SignedString mem_extern T2 (App.Secret ap2) = (''HS256+.terc3s'', None)"
    by (elim conjE)
  from all have c2: "calls ?w2 = calls world_later @ [Call_User ''a@x.com'' (u2, None),
        Call_CompareHashAndPassword (User.PassHash u2) ''pw123'' None,
        Call_App 1 (ap2, None), Call_Now n2,
        Call_SignedString T2 (App.Secret ap2) (''HS256+.terc3s'', None)]"
    by (elim conjE)
  from all have x1: "Claims T1 ''exp'' = Some (IntClaim (Time_Unix (Time_Add n1 (tokenTTL mem_Auth))))"
    by (elim conjE)
  from all have x2: "Claims T2 ''exp'' = Some (IntClaim (Time_Unix (Time_Add n2 (tokenTTL mem_Auth))))"
    by (elim conjE)
  from all have mono: "n1 \<le> n2 \<longrightarrow>
        Time_Unix (Time_Add n1 (tokenTTL mem_Auth)) \<le> Time_Unix (Time_Add n2 (tokenTTL mem_Auth))"
    by (elim conjE)
  from l1 have u1: "u1 = user_a" and s1: "s1 = ext world_one" by (auto simp add: doubles)
  from l2 have u2: "u2 = user_a" and s2: "s2 = ext world_later" by (auto simp add: doubles)
  from p1 s1 have ap1: "ap1 = ?app" by (simp add: doubles)
  from p2 s2 have ap2: "ap2 = ?app" by (simp add: doubles)
  have v1: "n1 = 1700000000123456789"
    by (simp only: n1 world_one_final_ext) (simp add: doubles)
  have v2: "n2 = 1700000042000000000"
    by (simp only: n2 world_later_final_ext) (simp add: doubles)
  have ttl: "tokenTTL mem_Auth = 3600000000000" by (simp add: mem_Auth_def)
  have e1: "Time_Unix (Time_Add n1 (tokenTTL mem_Auth)) = 1700003600"
    by (simp add: v1 ttl Time_Unix_def Time_Add_def)
  have e2: "Time_Unix (Time_Add n2 (tokenTTL mem_Auth)) = 1700003642"
    by (simp add: v2 ttl Time_Unix_def Time_Add_def)
  have "n1 \<le> n2" by (simp add: v1 v2)
  with mono have "Time_Unix (Time_Add n1 (tokenTTL mem_Auth)) \<le> Time_Unix (Time_Add n2 (tokenTTL mem_Auth))"
    by (rule mp)
  then have le: "(1700003600 :: int) \<le> 1700003642" by (simp only: e1 e2)
  have t1: "T1 = issued user_a ?app 3600000000000 1700000000123456789"
    by (simp only: T1 u1 ap1 ttl v1)
  have t2: "T2 = issued user_a ?app 3600000000000 1700000042000000000"
    by (simp only: T2 u2 ap2 ttl v2)
  have sec: "App.Secret ?app = ''s3cret''" by simp
  have g1': "jwt_SignedString mem_extern T1 ''s3cret'' = (''HS256.terc3s'', None)"
    using g1 by (simp only: ap1 sec)
  have g2': "jwt_SignedString mem_extern T2 ''s3cret'' = (''HS256+.terc3s'', None)"
    using g2 by (simp only: ap2 sec)
  have la1: "last (calls ?w1) = Call_SignedString T1 ''s3cret'' (''HS256.terc3s'', None)"
    by (simp only: c1 ap1 sec) simp
  have la2: "last (calls ?w2) = Call_SignedString T2 ''s3cret'' (''HS256+.terc3s'', None)"
    by (simp only: c2 ap2 sec) simp
  have x1': "Claims T1 ''exp'' = Some (IntClaim 1700003600)"
    using x1 by (simp only: e1)
  have x2': "Claims T2 ''exp'' = Some (IntClaim 1700003642)"
    using x2 by (simp only: e2)
  have b: "T1 = issued user_a ?app 3600000000000 1700000000123456789 \<and>
      T2 = issued user_a ?app 3600000000000 1700000042000000000 \<and>
      jwt_SignedString mem_extern T1 ''s3cret'' = (''HS256.terc3s'', None) \<and>
      jwt_SignedString mem_extern T2 ''s3cret'' = (''HS256+.terc3s'', None) \<and>
      last (calls ?w1) = Call_SignedString T1 ''s3cret'' (''HS256.terc3s'', None) \<and>
      last (calls ?w2) = Call_SignedString T2 ''s3cret'' (''HS256+.terc3s'', None) \<and>
      Claims T1 ''exp'' = Some (IntClaim 1700003600) \<and>
      Claims T2 ''exp'' = Some (IntClaim 1700003642)"
    using t1 t2 g1' g2' la1 la2 x1' x2' by (intro conjI)
  have ex: "\<exists>T1 T2.
      T1 = issued user_a ?app 3600000000000 1700000000123456789 \<and>
      T2 = issued user_a ?app 3600000000000 1700000042000000000 \<and>
      jwt_SignedString mem_extern T1 ''s3cret'' = (''HS256.terc3s'', None) \<and>
      jwt_SignedString mem_extern T2 ''s3cret'' = (''HS256+.terc3s'', None) \<and>
      last (calls ?w1) = Call_SignedString T1 ''s3cret'' (''HS256.terc3s'', None) \<and>
      last (calls ?w2) = Call_SignedString T2 ''s3cret'' (''HS256+.terc3s'', None) \<and>
      Claims T1 ''exp'' = Some (IntClaim 1700003600) \<and>
      Claims T2 ''exp'' = Some (IntClaim 1700003642)"
    by (rule exI [of _ T1], rule exI [of _ T2]) (rule b)
  from Login_world_one Login_world_later ex le show ?thesis by (intro conjI)
qed

section \<open>Results next to an error\<close>

text \<open>
  C10. Whenever an operation returns an error, the value next to it is the zero value:
  the empty string for \<open>Login\<close>, 0 for \<open>RegisterNewUser\<close>, \<open>false\<close> for \<open>IsAdmin\<close>,
  whatever value the failing capability or library returned next to its own error.
\<close>

theorem failures_return_zero_values:
  "(snd (fst (Login x a email password appID w)) \<noteq> None
      \<longrightarrow> fst (fst (Login x a email password appID w)) = '''') \<and>
   (snd (fst (RegisterNewUser x a email password w)) \<noteq> None
      \<longrightarrow> fst (fst (RegisterNewUser x a email password w)) = 0) \<and>
   (snd (fst (IsAdmin a userID w)) \<noteq> None
      \<longrightarrow> fst (fst (IsAdmin a userID w)) = False)"
proof (intro conjI)
  show "snd (fst (Login x a email password appID w)) \<noteq> None
      \<longrightarrow> fst (fst (Login x a email password appID w)) = ''''"
  proof (cases rule: Login_cases [where a = a and email = email and w = w and x = x
      and password = password and appID = appID])
    case (lookup u e s1)
    then show ?thesis by (simp add: Login_lookup_failed)
  next
    case (password u s1 ce)
    then show ?thesis by (simp add: Login_password_failed)
  next
    case (app u s1 ap e s2)
    then show ?thesis by (simp add: Login_app_failed)
  next
    case (token u s1 ap s2 ts se)
    then show ?thesis by (simp add: Login_token_step)
  qed
next
  obtain h gerr s1 where
    g: "bcrypt_GenerateFromPassword x password bcrypt_DefaultCost (ext w) = ((h, gerr), s1)"
    by (metis surj_pair)
  obtain uid serr s2 where s: "usrSaver_SaveUser a email h s1 = ((uid, serr), s2)"
    by (metis surj_pair)
  show "snd (fst (RegisterNewUser x a email password w)) \<noteq> None
      \<longrightarrow> fst (fst (RegisterNewUser x a email password w)) = 0"
    using g s
    by (cases gerr; cases serr)
      (simp_all add: RegisterNewUser_hash_failed RegisterNewUser_save_failed RegisterNewUser_saved)
next
  obtain b e s1 where i: "usrProvider_IsAdmin a userID (ext w) = ((b, e), s1)"
    by (metis surj_pair)
  show "snd (fst (IsAdmin a userID w)) \<noteq> None \<longrightarrow> fst (fst (IsAdmin a userID w)) = False"
    using i by (cases e) (simp_all add: IsAdmin_failed IsAdmin_answered)
qed

theorem failures_return_zero_values_witness:
  "jwt_SignedString mem_extern (issued user_a \<lparr>App.ID = 2, Secret = ''''\<rparr> (tokenTTL mem_Auth)
      (time_Now mem_extern (ext world_one))) '''' =
     (''junk'', Some (Sentinel (ErrVar ''jwt'' ''ErrInvalidKey''))) \<and>
   snd (fst (Login mem_extern mem_Auth ''a@x.com'' ''pw123'' 2 world_one)) \<noteq> None \<and>
   fst (fst (Login mem_extern mem_Auth ''a@x.com'' ''pw123'' 2 world_one)) = '''' \<and>
   usrSaver_SaveUser mem_Auth ''a@x.com'' ''$2a$pw123'' (ext world_one) =
     ((7, Some (Errorf ''storage.mem.SaveUser'' (Sentinel storage_ErrUserExists))), ext world_one) \<and>
   snd (fst (RegisterNewUser mem_extern mem_Auth ''a@x.com'' ''pw123'' world_one)) \<noteq> None \<and>
   fst (fst (RegisterNewUser mem_extern mem_Auth ''a@x.com'' ''pw123'' world_one)) = 0 \<and>
   usrProvider_IsAdmin mem_Auth 9999 (ext world_one) =
     ((True, Some (Errorf ''storage.mem.IsAdmin'' (Sentinel storage_ErrUserNotFound))), ext world_one) \<and>
   snd (fst (IsAdmin mem_Auth 9999 world_one)) \<noteq> None \<and>
   fst (fst (IsAdmin mem_Auth 9999 world_one)) = False"
proof -
  have j: "jwt_SignedString mem_extern (issued user_a \<lparr>App.ID = 2, Secret = ''''\<rparr> (tokenTTL mem_Auth)
      (time_Now mem_extern (ext world_one))) '''' =
     (''junk'', Some (Sentinel (ErrVar ''jwt'' ''ErrInvalidKey'')))"
    by (simp add: doubles)
  have l: "snd (fst (Login mem_extern mem_Auth ''a@x.com'' ''pw123'' 2 world_one)) \<noteq> None"
    by (simp add: Login_def NewToken_def jwt_New_def invoke_def reading_def doubles errvars)
  have s: "usrSaver_SaveUser mem_Auth ''a@x.com'' ''$2a$pw123'' (ext world_one) =
     ((7, Some (Errorf ''storage.mem.SaveUser'' (Sentinel storage_ErrUserExists))), ext world_one)"
    by (simp add: doubles)
  have r: "snd (fst (RegisterNewUser mem_extern mem_Auth ''a@x.com'' ''pw123'' world_one)) \<noteq> None"
    by (simp add: RegisterNewUser_def invoke_def doubles errvars bcrypt_DefaultCost_def)
  have i: "usrProvider_IsAdmin mem_Auth 9999 (ext world_one) =
     ((True, Some (Errorf ''storage.mem.IsAdmin'' (Sentinel storage_ErrUserNotFound))), ext world_one)"
    by (simp add: doubles)
  have a: "snd (fst (IsAdmin mem_Auth 9999 world_one)) \<noteq> None"
    by (simp add: IsAdmin_def invoke_def doubles errvars)
  show ?thesis
    using j l s r i a
      failures_return_zero_values [of mem_extern mem_Auth "''a@x.com''" "''pw123''" 2 world_one 9999]
    by simp
qed

end
